theory Spec2Isabelle
  imports Complex_Main
begin

section \<open>JavaScript values used by the comments service\<close>

text \<open>
  The payloads on the wire, on the queue and in the hot cache are JSON texts. A decoded
  payload is a \<open>json\<close> value; an \<open>undefined\<close> property read is \<open>None\<close>.
\<close>

datatype json =
    JNull
  | JBool bool
  | JNum real
  | JStr string
  | JArr "json list"
  | JObj "(string \<times> json) list"

text \<open>JavaScript truthiness of a decoded value, as used by \<open>a && b\<close> and \<open>if (a)\<close>.\<close>

fun truthy :: "json \<Rightarrow> bool" where
  "truthy JNull = False"
| "truthy (JBool b) = b"
| "truthy (JNum x) = (x \<noteq> 0)"
| "truthy (JStr s) = (s \<noteq> [])"
| "truthy (JArr xs) = True"
| "truthy (JObj kvs) = True"

text \<open>Property read \<open>data.k\<close> for the data keys of the service; only objects carry them.\<close>

fun field :: "json \<Rightarrow> string \<Rightarrow> json option" where
  "field (JObj kvs) k = map_of kvs k"
| "field j k = None"

definition truthy_field :: "json \<Rightarrow> string \<Rightarrow> bool" where
  "truthy_field j k = (case field j k of None \<Rightarrow> False | Some v \<Rightarrow> truthy v)"

text \<open>
  The built-in functions of the runtime, the error report of the schema library and the id
  default of the Comment model are not code of the repository; the model takes them as
  parameters.
  \<open>JSON_parse\<close> is \<open>None\<close> where \<open>JSON.parse\<close> throws. \<open>String v\<close> is \<open>None\<close> where
  \<open>String(v)\<close> throws a \<open>TypeError\<close> (a decoded object with a property \<open>toString\<close> has
  no callable conversion). \<open>flatten b\<close> is \<open>parsed.error.flatten()\<close> for a rejected body
  \<open>b\<close>. \<open>default_id n\<close> is the \<open>n\<close>-th id that the database client generates for a row
  that is created without an id (the migration gives the \<open>id\<close> column no database
  default, and every writer of the repository creates rows without an id).
\<close>

record runtime =
  JSON_parse :: "string \<Rightarrow> json option"
  JSON_stringify :: "json \<Rightarrow> string"
  String :: "json \<Rightarrow> string option"
  toLowerCase :: "string \<Rightarrow> string"
  toISOString :: "nat \<Rightarrow> string"
  flatten :: "json \<Rightarrow> json"
  default_id :: "nat \<Rightarrow> string"

section \<open>The primary store\<close>

text \<open>The \<open>Comment\<close> table of the migration: primary key \<open>id\<close>.\<close>

record row =
  r_id :: string
  r_videoId :: string
  r_userId :: string
  r_content :: string
  r_createdAt :: nat

text \<open>The data object that every writer of the repository passes to the store.\<close>

record new_comment =
  nc_videoId :: string
  nc_userId :: string
  nc_content :: string

record db =
  rows :: "row list"
  generated :: nat

definition mk_row :: "runtime \<Rightarrow> nat \<Rightarrow> nat \<Rightarrow> new_comment \<Rightarrow> row" where
  "mk_row rt t n d =
     \<lparr>r_id = default_id rt n, r_videoId = nc_videoId d, r_userId = nc_userId d,
      r_content = nc_content d, r_createdAt = t\<rparr>"

text \<open>
  \<open>prisma.comment.createMany({ data, skipDuplicates: true })\<close> at database time \<open>t\<close>:
  each row gets a generated id; a row whose id is already a key of the table is skipped.
\<close>

fun createMany :: "runtime \<Rightarrow> nat \<Rightarrow> new_comment list \<Rightarrow> db \<Rightarrow> db" where
  "createMany rt t [] s = s"
| "createMany rt t (d # ds) s =
     (let r = mk_row rt t (generated s) d;
          s' = s\<lparr>generated := Suc (generated s)\<rparr>
      in if r_id r \<in> set (map r_id (rows s))
         then createMany rt t ds s'
         else createMany rt t ds (s'\<lparr>rows := rows s @ [r]\<rparr>))"

text \<open>
  \<open>prisma.comment.create({ data })\<close>: the created row, or \<open>None\<close> when the id is
  already a key (the unique constraint rejects the insert).
\<close>

definition create :: "runtime \<Rightarrow> nat \<Rightarrow> new_comment \<Rightarrow> db \<Rightarrow> (row \<times> db) option" where
  "create rt t d s =
     (let r = mk_row rt t (generated s) d;
          s' = s\<lparr>generated := Suc (generated s)\<rparr>
      in if r_id r \<in> set (map r_id (rows s)) then None
         else Some (r, s'\<lparr>rows := rows s @ [r]\<rparr>))"

section \<open>Redis lists\<close>

text \<open>
  \<open>LRANGE key start stop\<close> and \<open>LTRIM key start stop\<close> on the value of a list key:
  both ends inclusive, negative indices count from the tail.
\<close>

definition lrange :: "int \<Rightarrow> int \<Rightarrow> 'a list \<Rightarrow> 'a list" where
  "lrange start stop xs =
     (let n = int (length xs);
          s = (if start < 0 then max 0 (n + start) else start);
          e = (if stop < 0 then n + stop else min stop (n - 1))
      in if e < s then [] else take (nat (e - s + 1)) (drop (nat s) xs))"

definition ltrim :: "int \<Rightarrow> int \<Rightarrow> 'a list \<Rightarrow> 'a list" where
  "ltrim start stop xs = lrange start stop xs"

definition lpush :: "'a \<Rightarrow> 'a list \<Rightarrow> 'a list" where
  "lpush v xs = v # xs"

definition rpush :: "'a list \<Rightarrow> 'a list \<Rightarrow> 'a list" where
  "rpush vs xs = xs @ vs"

section \<open>Effects\<close>

text \<open>
  The calls a handler makes on its collaborators, in the order it makes them.
  \<open>Rejected pending\<close> marks a promise chain that rejects with no handler; \<open>pending\<close> are
  the calls deferred with \<open>setImmediate\<close> before the rejection, which run only if the
  runtime goes on after it.
\<close>

datatype effect =
    ProducerSend string string string
  | LogError string
  | LogWarn string
  | RedisPublish string string
  | RedisSubscribe string
  | RedisUnsubscribe string
  | LocalEmit string string
  | DbCreate new_comment
  | DbCreateMany "new_comment list"
  | CacheWrite string string
  | Rejected "effect list"
  | QueueRange
  | QueueTrim nat
  | DlqPush "string list"
  | ResolveOffset nat
  | Heartbeat
  | WsClose nat
  | WsSend nat string
  | Respond nat json

section \<open>Validation of a queue entry (both workers)\<close>

definition valid_shape :: "json \<Rightarrow> bool" where
  "valid_shape d \<longleftrightarrow>
     truthy d \<and> truthy_field d ''videoId'' \<and> truthy_field d ''userId'' \<and> truthy_field d ''content''"

text \<open>\<open>String(d.k)\<close>: \<open>None\<close> when the conversion throws.\<close>

definition str_field :: "runtime \<Rightarrow> json \<Rightarrow> string \<Rightarrow> string option" where
  "str_field rt d k =
     (case field d k of None \<Rightarrow> Some ''undefined'' | Some v \<Rightarrow> String rt v)"

text \<open>
  The object literal \<open>{ videoId: String(..), userId: String(..), content: String(..) }\<close>:
  \<open>None\<close> when one of the conversions throws.
\<close>

definition to_new_comment :: "runtime \<Rightarrow> json \<Rightarrow> new_comment option" where
  "to_new_comment rt d =
     (case str_field rt d ''videoId'' of None \<Rightarrow> None | Some v \<Rightarrow>
     (case str_field rt d ''userId'' of None \<Rightarrow> None | Some u \<Rightarrow>
     (case str_field rt d ''content'' of None \<Rightarrow> None | Some c \<Rightarrow>
        Some \<lparr>nc_videoId = v, nc_userId = u, nc_content = c\<rparr>)))"

definition json_of_new_comment :: "new_comment \<Rightarrow> json" where
  "json_of_new_comment c =
     JObj [(''videoId'', JStr (nc_videoId c)), (''userId'', JStr (nc_userId c)),
           (''content'', JStr (nc_content c))]"

section \<open>The list-queue worker (processBatch)\<close>

definition BATCH_SIZE :: nat where
  "BATCH_SIZE = 100"

record world =
  queue :: "string list"
  dlq :: "string list"
  store :: db

text \<open>What the collaborators do during one call of \<open>processBatch\<close>.\<close>

record batch_env =
  lrange_fails :: bool
  ltrim_fails :: bool
  insert_fails :: bool
  rpush_fails :: bool
  db_time :: nat

datatype outcome = Returned | Threw

text \<open>
  The \<open>for\<close> loop over the fetched messages, with its two accumulators. A message that
  does not parse, or whose conversion throws, is caught and goes to the invalid ones.
\<close>

fun classify :: "runtime \<Rightarrow> string list \<Rightarrow> new_comment list \<Rightarrow> string list
    \<Rightarrow> new_comment list \<times> string list" where
  "classify rt [] valid invalid = (valid, invalid)"
| "classify rt (m # ms) valid invalid =
     (case JSON_parse rt m of
        None \<Rightarrow> classify rt ms valid (invalid @ [m])
      | Some d \<Rightarrow>
          if valid_shape d
          then (case to_new_comment rt d of
                  None \<Rightarrow> classify rt ms valid (invalid @ [m])
                | Some c \<Rightarrow> classify rt ms (valid @ [c]) invalid)
          else classify rt ms valid (invalid @ [m]))"

text \<open>
  \<open>await redis.rpush(DLQ_NAME, ...msgs)\<close>: it throws when the push fails; \<open>after\<close> is what
  follows it.
\<close>

definition push_dlq :: "batch_env \<Rightarrow> string list \<Rightarrow> effect list \<Rightarrow> world \<times> effect list
    \<Rightarrow> outcome \<times> world \<times> effect list" where
  "push_dlq env msgs after st =
     (case st of (w, tr) \<Rightarrow>
        if rpush_fails env then (Threw, w, tr @ [DlqPush msgs])
        else (Returned, w\<lparr>dlq := rpush msgs (dlq w)\<rparr>, tr @ [DlqPush msgs] @ after))"

definition move_invalid :: "batch_env \<Rightarrow> string list \<Rightarrow> world \<times> effect list
    \<Rightarrow> outcome \<times> world \<times> effect list" where
  "move_invalid env invalidMessages st =
     (if length invalidMessages > 0 then push_dlq env invalidMessages [LogWarn ''moved''] st
      else (case st of (w, tr) \<Rightarrow> (Returned, w, tr)))"

text \<open>
  The body of the \<open>try\<close> of \<open>processBatch\<close>: the outcome is \<open>Threw\<close> where an awaited
  call rejects outside the inner \<open>try\<close>; with it come the world and the calls made so far.
\<close>

definition processBatch_try :: "runtime \<Rightarrow> batch_env \<Rightarrow> world \<Rightarrow> outcome \<times> world \<times> effect list" where
  "processBatch_try rt env w =
     (if lrange_fails env then (Threw, w, [QueueRange])
      else
        let messages = lrange 0 (int BATCH_SIZE - 1) (queue w) in
        if length messages = 0 then (Returned, w, [QueueRange])
        else if ltrim_fails env
        then (Threw, w, [QueueRange, QueueTrim (length messages)])
        else
          let w1 = w\<lparr>queue := ltrim (int (length messages)) (- 1) (queue w)\<rparr>;
              tr1 = [QueueRange, QueueTrim (length messages)];
              (validComments, invalidMessages) = classify rt messages [] []
          in
          if length validComments > 0
          then
            (if insert_fails env
             then
               let allBatchMessages =
                     map (\<lambda>c. JSON_stringify rt (json_of_new_comment c)) validComments
                     @ invalidMessages;
                   st = (w1, tr1 @ [DbCreateMany validComments, LogError ''insert''])
               in if length allBatchMessages > 0 then push_dlq env allBatchMessages [] st
                  else (Returned, w1, snd st)
             else
               move_invalid env invalidMessages
                 (w1\<lparr>store := createMany rt (db_time env) validComments (store w1)\<rparr>,
                  tr1 @ [DbCreateMany validComments]))
          else move_invalid env invalidMessages (w1, tr1))"

text \<open>\<open>processBatch\<close>: the outer \<open>catch\<close> logs whatever the body throws.\<close>

definition processBatch :: "runtime \<Rightarrow> batch_env \<Rightarrow> world \<Rightarrow> outcome \<times> world \<times> effect list" where
  "processBatch rt env w =
     (case processBatch_try rt env w of
        (Threw, w', tr) \<Rightarrow> (Returned, w', tr @ [LogError ''worker''])
      | (Returned, w', tr) \<Rightarrow> (Returned, w', tr))"

text \<open>
  \<open>startWorker\<close> is \<open>while (true) { await processBatch(); sleep }\<close>: an exception out of
  \<open>processBatch\<close> would end the loop (and the process). The model runs one iteration per
  element of the list of environments; the loop itself never ends.
\<close>

fun startWorker :: "runtime \<Rightarrow> batch_env list \<Rightarrow> world \<Rightarrow> outcome \<times> world \<times> effect list" where
  "startWorker rt [] w = (Returned, w, [])"
| "startWorker rt (env # envs) w =
     (case processBatch rt env w of
        (Threw, w1, tr1) \<Rightarrow> (Threw, w1, tr1)
      | (Returned, w1, tr1) \<Rightarrow>
          (case startWorker rt envs w1 of (out, w2, tr2) \<Rightarrow> (out, w2, tr1 @ tr2)))"

section \<open>The Kafka consumer (eachBatch)\<close>

text \<open>A message of the batch; its value is \<open>None\<close> when it is \<open>null\<close>.\<close>

record kmessage =
  k_offset :: nat
  k_value :: "string option"

text \<open>
  \<open>k_live off\<close>: \<open>isRunning() && !isStale()\<close> when the loop reaches the message at
  \<open>off\<close>; \<open>k_heartbeat_fails off\<close>: the \<open>heartbeat()\<close> after it throws.
\<close>

record kafka_env =
  k_live :: "nat \<Rightarrow> bool"
  k_heartbeat_fails :: "nat \<Rightarrow> bool"
  k_insert_fails :: bool
  k_db_time :: nat

text \<open>
  The loop of \<open>eachBatch\<close>. A \<open>null\<close> value throws in the \<open>try\<close> and again in the
  \<open>console.warn\<close> of the \<open>catch\<close>, and so out of \<open>eachBatch\<close>, before the offset is
  resolved; a failing \<open>heartbeat()\<close> throws out of it after.
\<close>

fun eachBatch_loop :: "runtime \<Rightarrow> kafka_env \<Rightarrow> kmessage list \<Rightarrow> new_comment list
    \<Rightarrow> effect list \<Rightarrow> outcome \<times> new_comment list \<times> effect list" where
  "eachBatch_loop rt env [] valid tr = (Returned, valid, tr)"
| "eachBatch_loop rt env (m # ms) valid tr =
     (if \<not> k_live env (k_offset m) then (Returned, valid, tr)
      else
        (case k_value m of
           None \<Rightarrow> (Threw, valid, tr)
         | Some v \<Rightarrow>
             let (valid1, tr1) =
                   (case JSON_parse rt v of
                      None \<Rightarrow> (valid, tr @ [LogWarn ''parse''])
                    | Some d \<Rightarrow>
                        if valid_shape d
                        then (case to_new_comment rt d of
                                None \<Rightarrow> (valid, tr @ [LogWarn ''parse''])
                              | Some c \<Rightarrow> (valid @ [c], tr))
                        else (valid, tr @ [LogWarn ''invalid'']));
                 tr2 = tr1 @ [ResolveOffset (k_offset m), Heartbeat]
             in if k_heartbeat_fails env (k_offset m) then (Threw, valid1, tr2)
                else eachBatch_loop rt env ms valid1 tr2))"

definition eachBatch :: "runtime \<Rightarrow> kafka_env \<Rightarrow> kmessage list \<Rightarrow> db
    \<Rightarrow> outcome \<times> db \<times> effect list" where
  "eachBatch rt env msgs s =
     (case eachBatch_loop rt env msgs [] [] of
        (Threw, validComments, tr) \<Rightarrow> (Threw, s, tr)
      | (Returned, validComments, tr) \<Rightarrow>
          if length validComments > 0
          then (if k_insert_fails env
                then (Returned, s, tr @ [DbCreateMany validComments, LogError ''insert''])
                else (Returned, createMany rt (k_db_time env) validComments s,
                      tr @ [DbCreateMany validComments]))
          else (Returned, s, tr))"

section \<open>Persistence policy (index.ts)\<close>

text \<open>The value of \<open>Number(text)\<close>.\<close>

datatype js_number = NaN | Finite real | PosInfinity | NegInfinity

text \<open>\<open>x || 0\<close>, \<open>Math.max(x, c)\<close>, \<open>Math.min(x, c)\<close> and \<open>r < x\<close> for finite \<open>c\<close> and \<open>r\<close>.\<close>

fun or_zero :: "js_number \<Rightarrow> js_number" where
  "or_zero NaN = Finite 0"
| "or_zero (Finite x) = (if x = 0 then Finite 0 else Finite x)"
| "or_zero PosInfinity = PosInfinity"
| "or_zero NegInfinity = NegInfinity"

fun Math_max :: "js_number \<Rightarrow> real \<Rightarrow> js_number" where
  "Math_max NaN c = NaN"
| "Math_max (Finite x) c = Finite (max x c)"
| "Math_max PosInfinity c = PosInfinity"
| "Math_max NegInfinity c = Finite c"

fun Math_min :: "js_number \<Rightarrow> real \<Rightarrow> js_number" where
  "Math_min NaN c = NaN"
| "Math_min (Finite x) c = Finite (min x c)"
| "Math_min PosInfinity c = Finite c"
| "Math_min NegInfinity c = NegInfinity"

fun js_less :: "real \<Rightarrow> js_number \<Rightarrow> bool" where
  "js_less r NaN = False"
| "js_less r (Finite x) = (r < x)"
| "js_less r PosInfinity = True"
| "js_less r NegInfinity = False"

text \<open>
  \<open>SAMPLE_RATE = Math.min(Math.max(Number(process.env.SAMPLE_RATE || '0') || 0, 0), 1)\<close>;
  the argument is the value of the \<open>Number(...)\<close> call.
\<close>

definition SAMPLE_RATE_of :: "js_number \<Rightarrow> js_number" where
  "SAMPLE_RATE_of n = Math_min (Math_max (or_zero n) 0) 1"

text \<open>\<open>PERSIST_MODE = (process.env.COMMENTS_PERSIST || 'none').toLowerCase()\<close>.\<close>

definition PERSIST_MODE_of :: "runtime \<Rightarrow> string option \<Rightarrow> string" where
  "PERSIST_MODE_of rt v =
     toLowerCase rt (case v of None \<Rightarrow> ''none'' | Some s \<Rightarrow> if s = [] then ''none'' else s)"

text \<open>\<open>redis\<close>: \<open>REDIS_URL\<close> is set, so \<open>redisPublisher\<close> and \<open>redisSubscriber\<close> exist.\<close>

record config =
  PERSIST_MODE :: string
  SAMPLE_RATE :: js_number
  redis :: bool

text \<open>
  The decision of the HTTP handler; \<open>random\<close> is the value of \<open>Math.random()\<close>, a number
  in \<open>[0, 1)\<close>. The socket handler takes the same decision with \<open>forcePersist = False\<close>.
\<close>

definition shouldPersist :: "config \<Rightarrow> bool \<Rightarrow> real \<Rightarrow> bool" where
  "shouldPersist cfg forcePersist random \<longleftrightarrow>
     forcePersist \<or> PERSIST_MODE cfg = ''all''
     \<or> (PERSIST_MODE cfg = ''sample'' \<and> js_less random (SAMPLE_RATE cfg))"

section \<open>The canonical record\<close>

record comment =
  c_id :: string
  c_videoId :: string
  c_userId :: string
  c_content :: string
  c_createdAt :: string
  c_replyToId :: "json option"
  c_replyToUserId :: "json option"

definition opt_prop :: "string \<Rightarrow> json option \<Rightarrow> (string \<times> json) list" where
  "opt_prop k v = (case v of None \<Rightarrow> [] | Some j \<Rightarrow> [(k, j)])"

definition json_of_comment :: "comment \<Rightarrow> json" where
  "json_of_comment c =
     JObj ([(''id'', JStr (c_id c)), (''videoId'', JStr (c_videoId c)),
            (''userId'', JStr (c_userId c)), (''content'', JStr (c_content c)),
            (''createdAt'', JStr (c_createdAt c))]
           @ opt_prop ''replyToId'' (c_replyToId c)
           @ opt_prop ''replyToUserId'' (c_replyToUserId c))"

definition json_of_row :: "runtime \<Rightarrow> row \<Rightarrow> json" where
  "json_of_row rt r =
     JObj [(''id'', JStr (r_id r)), (''videoId'', JStr (r_videoId r)),
           (''userId'', JStr (r_userId r)), (''content'', JStr (r_content r)),
           (''createdAt'', JStr (toISOString rt (r_createdAt r)))]"

definition TOPIC_COMMENTS :: string where
  "TOPIC_COMMENTS = ''comments''"

section \<open>Broadcast (publish)\<close>

text \<open>
  \<open>publish(roomId, payload)\<close>: the distributed publish is issued at once when Redis is
  configured (its failure is swallowed); the local emit is deferred with \<open>setImmediate\<close>.
  The result is the pair of the immediate and the deferred calls.
\<close>

definition publish :: "runtime \<Rightarrow> config \<Rightarrow> string \<Rightarrow> json \<Rightarrow> effect list \<times> effect list" where
  "publish rt cfg roomId payload =
     (let text = (case payload of JStr s \<Rightarrow> s | _ \<Rightarrow> JSON_stringify rt payload)
      in ((if redis cfg then [RedisPublish (''room:'' @ roomId) text] else []),
          [LocalEmit (''room:'' @ roomId) text]))"

definition payload_of :: "string \<Rightarrow> json \<Rightarrow> json" where
  "payload_of ty item = JObj [(''type'', JStr ty), (''item'', item)]"

text \<open>The deferred hot-cache write of both handlers, issued only when Redis is configured.\<close>

definition cache_effects :: "runtime \<Rightarrow> config \<Rightarrow> string \<Rightarrow> string \<Rightarrow> json \<Rightarrow> effect list" where
  "cache_effects rt cfg scope videoId created =
     (if redis cfg
      then [CacheWrite (''chat:'' @ scope @ '':'' @ videoId) (JSON_stringify rt created)]
      else [])"

section \<open>HTTP ingestion (POST /comments)\<close>

record post_request =
  body :: json
  q_scope :: "string option"
  q_persist :: "string option"

text \<open>What the handler reads from its environment while it serves one submission.\<close>

record request_env =
  uuid :: string
  now :: nat
  random :: real
  send_fails :: bool
  create_fails :: bool
  db_now :: nat

record parsed_body =
  p_videoId :: string
  p_userId :: string
  p_content :: string
  p_replyToId :: "string option"
  p_replyToUserId :: "string option"
  p_persist :: "bool option"

fun z_string :: "json option \<Rightarrow> string option" where
  "z_string (Some (JStr s)) = Some s"
| "z_string v = None"

fun z_string_optional :: "json option \<Rightarrow> string option option" where
  "z_string_optional None = Some None"
| "z_string_optional (Some (JStr s)) = Some (Some s)"
| "z_string_optional v = None"

fun z_boolean_optional :: "json option \<Rightarrow> bool option option" where
  "z_boolean_optional None = Some None"
| "z_boolean_optional (Some (JBool b)) = Some (Some b)"
| "z_boolean_optional v = None"

text \<open>\<open>createSchema.safeParse(body)\<close>: \<open>None\<close> when the body is rejected.\<close>

definition createSchema_object :: "json \<Rightarrow> parsed_body option" where
  "createSchema_object b =
     (case z_string (field b ''videoId'') of None \<Rightarrow> None | Some v \<Rightarrow>
     (case z_string (field b ''userId'') of None \<Rightarrow> None | Some u \<Rightarrow>
     (case z_string (field b ''content'') of None \<Rightarrow> None | Some c \<Rightarrow>
     (case z_string_optional (field b ''replyToId'') of None \<Rightarrow> None | Some ri \<Rightarrow>
     (case z_string_optional (field b ''replyToUserId'') of None \<Rightarrow> None | Some ru \<Rightarrow>
     (case z_boolean_optional (field b ''persist'') of None \<Rightarrow> None | Some p \<Rightarrow>
        if 1 \<le> length v \<and> 1 \<le> length u \<and> 1 \<le> length c \<and> length c \<le> 2000
        then Some \<lparr>p_videoId = v, p_userId = u, p_content = c, p_replyToId = ri,
                   p_replyToUserId = ru, p_persist = p\<rparr>
        else None))))))"

definition createSchema :: "json \<Rightarrow> parsed_body option" where
  "createSchema b = (case b of JObj kvs \<Rightarrow> createSchema_object b | _ \<Rightarrow> None)"

definition or_default :: "string option \<Rightarrow> string \<Rightarrow> string" where
  "or_default v d = (case v of None \<Rightarrow> d | Some s \<Rightarrow> if s = [] then d else s)"

definition temp_of :: "runtime \<Rightarrow> request_env \<Rightarrow> parsed_body \<Rightarrow> comment" where
  "temp_of rt env p =
     \<lparr>c_id = uuid env, c_videoId = p_videoId p, c_userId = p_userId p,
      c_content = p_content p, c_createdAt = toISOString rt (now env),
      c_replyToId = map_option JStr (p_replyToId p),
      c_replyToUserId = map_option JStr (p_replyToUserId p)\<rparr>"

definition forcePersist_of :: "post_request \<Rightarrow> parsed_body \<Rightarrow> bool" where
  "forcePersist_of req p \<longleftrightarrow> q_persist req = Some ''1'' \<or> p_persist p = Some True"

text \<open>
  The calls of the handler in order: the awaited \<open>producer.send\<close> (with the log line of
  its \<open>catch\<close> when it fails), the immediate part of the two \<open>publish\<close> calls, the
  response, and then the work deferred with \<open>setImmediate\<close>.
\<close>

definition post_comments :: "runtime \<Rightarrow> config \<Rightarrow> request_env \<Rightarrow> post_request \<Rightarrow> effect list" where
  "post_comments rt cfg env req =
     (case createSchema (body req) of
        None \<Rightarrow>
          [Respond 400
             (JObj [(''error'', JStr ''invalid body''), (''details'', flatten rt (body req))])]
      | Some p \<Rightarrow>
          let scope = toLowerCase rt (or_default (q_scope req) ''live'');
              temp = temp_of rt env p;
              created = json_of_comment temp;
              enqueue =
                (if shouldPersist cfg (forcePersist_of req p) (random env)
                 then ProducerSend TOPIC_COMMENTS (p_videoId p) (JSON_stringify rt created)
                      # (if send_fails env then [LogError ''kafka''] else [])
                 else []);
              (now1, later1) = publish rt cfg (p_videoId p) (payload_of ''comment'' created);
              (now2, later2) =
                (case p_replyToUserId p of
                   None \<Rightarrow> ([], [])
                 | Some u \<Rightarrow>
                     if u = [] then ([], [])
                     else publish rt cfg (''user:'' @ u) (payload_of ''reply'' created))
          in enqueue @ now1 @ now2 @ [Respond 200 created] @ later1 @ later2
             @ cache_effects rt cfg scope (p_videoId p) created)"

section \<open>Socket ingestion (ws.on('message'))\<close>

text \<open>
  \<open>(data.scope || 'live').toLowerCase()\<close>: a truthy scope that is not a string has no
  \<open>toLowerCase\<close>; the \<open>TypeError\<close> is caught by the handler's \<open>try\<close> (\<open>None\<close>).
\<close>

definition scope_of :: "runtime \<Rightarrow> json option \<Rightarrow> string option" where
  "scope_of rt v =
     (case v of
        None \<Rightarrow> Some (toLowerCase rt ''live'')
      | Some j \<Rightarrow>
          if \<not> truthy j then Some (toLowerCase rt ''live'')
          else (case j of JStr s \<Rightarrow> Some (toLowerCase rt s) | _ \<Rightarrow> None))"

text \<open>
  \<open>save()\<close>: the store after it, the record that is broadcast, and the calls made. A
  successful write returns the stored row; a failed or skipped one returns \<open>temp\<close>.
\<close>

definition save :: "runtime \<Rightarrow> config \<Rightarrow> request_env \<Rightarrow> comment \<Rightarrow> db \<Rightarrow> db \<times> json \<times> effect list" where
  "save rt cfg env temp s =
     (if PERSIST_MODE cfg = ''all''
         \<or> (PERSIST_MODE cfg = ''sample'' \<and> js_less (random env) (SAMPLE_RATE cfg))
      then
        let d = \<lparr>nc_videoId = c_videoId temp, nc_userId = c_userId temp,
                 nc_content = c_content temp\<rparr>
        in (if create_fails env then (s, json_of_comment temp, [DbCreate d, LogError ''db''])
            else (case create rt (db_now env) d s of
                    None \<Rightarrow> (s, json_of_comment temp, [DbCreate d, LogError ''db''])
                  | Some (r, s') \<Rightarrow> (s', json_of_row rt r, [DbCreate d])))
      else (s, json_of_comment temp, []))"

text \<open>
  The content (cut to 2000 characters) and the record \<open>temp\<close>, built inside the handler's
  \<open>try\<close>: \<open>None\<close> when one of the conversions throws.
\<close>

definition socket_temp :: "runtime \<Rightarrow> request_env \<Rightarrow> json \<Rightarrow> comment option" where
  "socket_temp rt env data =
     (case str_field rt data ''content'' of None \<Rightarrow> None | Some c \<Rightarrow>
     (case str_field rt data ''videoId'' of None \<Rightarrow> None | Some v \<Rightarrow>
     (case str_field rt data ''userId'' of None \<Rightarrow> None | Some u \<Rightarrow>
        Some \<lparr>c_id = uuid env, c_videoId = v, c_userId = u, c_content = take 2000 c,
              c_createdAt = toISOString rt (now env),
              c_replyToId = field data ''replyToId'',
              c_replyToUserId = field data ''replyToUserId''\<rparr>)))"

text \<open>
  The callback of \<open>save().then(...)\<close>. It runs outside the handler's \<open>try\<close>: when the
  conversion of a truthy \<open>replyToUserId\<close> throws, the chain rejects after the room
  broadcast was issued, and neither the reply nor the cache write is made.
\<close>

definition after_save :: "runtime \<Rightarrow> config \<Rightarrow> json \<Rightarrow> string \<Rightarrow> comment \<Rightarrow> json \<Rightarrow> effect list" where
  "after_save rt cfg data scope temp created =
     (let (now1, later1) = publish rt cfg (c_videoId temp) (payload_of ''comment'' created) in
      if truthy_field data ''replyToUserId''
      then (case str_field rt data ''replyToUserId'' of
              None \<Rightarrow> now1 @ [Rejected later1]
            | Some u \<Rightarrow>
                let (now2, later2) = publish rt cfg (''user:'' @ u) (payload_of ''reply'' created)
                in now1 @ now2 @ later1 @ later2
                   @ cache_effects rt cfg scope (c_videoId temp) created)
      else now1 @ later1 @ cache_effects rt cfg scope (c_videoId temp) created)"

definition ws_message :: "runtime \<Rightarrow> config \<Rightarrow> request_env \<Rightarrow> string \<Rightarrow> db \<Rightarrow> db \<times> effect list" where
  "ws_message rt cfg env raw s =
     (case JSON_parse rt raw of
        None \<Rightarrow> (s, [])
      | Some data \<Rightarrow>
          if truthy data \<and> field data ''type'' = Some (JStr ''comment'')
             \<and> truthy_field data ''videoId'' \<and> truthy_field data ''userId''
             \<and> truthy_field data ''content''
          then
            (case socket_temp rt env data of
               None \<Rightarrow> (s, [])
             | Some temp \<Rightarrow>
                 (case scope_of rt (field data ''scope'') of
                    None \<Rightarrow> (s, [])
                  | Some scope \<Rightarrow>
                      let (s', created, saved) = save rt cfg env temp s
                      in (s', saved @ after_save rt cfg data scope temp created)))
          else (s, []))"

section \<open>Connection registry\<close>

text \<open>
  \<open>roomSubscribers\<close> and the listeners of \<open>localBus\<close> (channel and connection, in the
  order of registration). A connection is identified by a number.
\<close>

record registry =
  roomSubscribers :: "string \<rightharpoonup> nat set"
  listeners :: "(string \<times> nat) list"

text \<open>\<open>new URL(req.url ...)\<close> throws (\<open>BadUrl\<close>) or gives \<open>searchParams.get('roomId')\<close>.\<close>

datatype url_query = BadUrl | RoomParam "string option"

definition ensureSubscribeRoom :: "config \<Rightarrow> string \<Rightarrow> registry \<Rightarrow> effect list" where
  "ensureSubscribeRoom cfg roomId st =
     (if redis cfg
      then (if roomSubscribers st roomId = None then [RedisSubscribe (''room:'' @ roomId)]
            else [])
      else [])"

definition on_connection :: "config \<Rightarrow> nat \<Rightarrow> url_query \<Rightarrow> registry \<Rightarrow> registry \<times> effect list" where
  "on_connection cfg ws q st =
     (case q of
        BadUrl \<Rightarrow> (st, [WsClose ws])
      | RoomParam p \<Rightarrow>
          let roomId = (case p of None \<Rightarrow> [] | Some r \<Rightarrow> r) in
          if roomId = [] then (st, [WsClose ws])
          else
            let st1 = (if roomSubscribers st roomId = None
                       then st\<lparr>roomSubscribers := (roomSubscribers st)(roomId \<mapsto> {})\<rparr>
                       else st);
                members = (case roomSubscribers st1 roomId of None \<Rightarrow> {} | Some m \<Rightarrow> m);
                st2 = st1\<lparr>roomSubscribers := (roomSubscribers st1)(roomId \<mapsto> insert ws members)\<rparr>;
                tr = ensureSubscribeRoom cfg roomId st2
            in (st2\<lparr>listeners := listeners st2 @ [(''room:'' @ roomId, ws)]\<rparr>, tr))"

text \<open>The \<open>close\<close> handler of a connection that joined \<open>roomId\<close>.\<close>

definition on_close :: "config \<Rightarrow> nat \<Rightarrow> string \<Rightarrow> registry \<Rightarrow> registry \<times> effect list" where
  "on_close cfg ws roomId st =
     (let st1 = st\<lparr>listeners := remove1 (''room:'' @ roomId, ws) (listeners st)\<rparr> in
      case roomSubscribers st1 roomId of
        None \<Rightarrow> (st1, [])
      | Some members \<Rightarrow>
          if members - {ws} = {}
          then (st1\<lparr>roomSubscribers := (roomSubscribers st1)(roomId := None)\<rparr>,
                if redis cfg then [RedisUnsubscribe (''room:'' @ roomId)] else [])
          else (st1\<lparr>roomSubscribers := (roomSubscribers st1)(roomId \<mapsto> members - {ws})\<rparr>, []))"

text \<open>\<open>localBus.emit(channel, text)\<close>: every listener of the channel sends to its socket.\<close>

definition emit :: "registry \<Rightarrow> string \<Rightarrow> string \<Rightarrow> effect list" where
  "emit st channel text =
     map (\<lambda>l. WsSend (snd l) text) (filter (\<lambda>l. fst l = channel) (listeners st))"

text \<open>
  The connection and close events that reach the server, in order; each is handled to
  completion before the next one.
\<close>

datatype registry_event = Connect nat url_query | Close nat string

fun event_connection :: "registry_event \<Rightarrow> nat" where
  "event_connection (Connect ws q) = ws"
| "event_connection (Close ws roomId) = ws"

fun registry_step :: "config \<Rightarrow> registry_event \<Rightarrow> registry \<Rightarrow> registry" where
  "registry_step cfg (Connect ws q) st = fst (on_connection cfg ws q st)"
| "registry_step cfg (Close ws roomId) st = fst (on_close cfg ws roomId st)"

fun registry_run :: "config \<Rightarrow> registry_event list \<Rightarrow> registry \<Rightarrow> registry" where
  "registry_run cfg [] st = st"
| "registry_run cfg (e # es) st = registry_run cfg es (registry_step cfg e st)"

section \<open>Hot cache\<close>

text \<open>The lists of the cache by key; a key that does not exist holds the empty list.\<close>

type_synonym cache = "string \<Rightarrow> string list"

datatype cache_fault = NoFault | LpushFails | LtrimFails | ExpireFails

text \<open>
  The deferred block \<open>lpush; ltrim(key, 0, 499); expire\<close> inside its \<open>try\<close>: the first
  call that fails ends it. The expiry itself (24 hours) is not modelled.
\<close>

definition cache_write :: "cache_fault \<Rightarrow> string \<Rightarrow> string \<Rightarrow> cache \<Rightarrow> cache" where
  "cache_write f key text c =
     (if f = LpushFails then c
      else
        let c1 = c(key := lpush text (c key)) in
        if f = LtrimFails then c1
        else c1(key := ltrim 0 499 (c1 key)))"

fun cache_writes :: "string \<Rightarrow> string list \<Rightarrow> cache \<Rightarrow> cache" where
  "cache_writes key [] c = c"
| "cache_writes key (t # ts) c = cache_writes key ts (cache_write NoFault key t c)"

section \<open>Recent history (GET /comments)\<close>

text \<open>
  \<open>g_limit\<close> is the value of \<open>Number(limitRaw || 0)\<close>: \<open>None\<close> for \<open>NaN\<close>, an integer
  otherwise (fractional and infinite limits are left out of the model).
\<close>

record get_request =
  g_videoId :: "string option"
  g_limit :: "int option"
  g_scope :: "string option"

text \<open>\<open>Math.min(Math.max(Number(limitRaw || 0) || 0, 0), 1000) || 200\<close>.\<close>

definition effective_limit :: "int option \<Rightarrow> nat" where
  "effective_limit n =
     (let a = (case n of None \<Rightarrow> 0 | Some i \<Rightarrow> i);
          b = min (max a 0) 1000
      in if b = 0 then 200 else nat b)"

text \<open>
  \<open>findMany({ where: { videoId }, take: limit, orderBy: { createdAt: 'desc' } })\<close>; rows
  with equal \<open>createdAt\<close> come latest-inserted first.
\<close>

definition findMany_desc :: "db \<Rightarrow> string \<Rightarrow> nat \<Rightarrow> row list" where
  "findMany_desc s videoId limit =
     take limit (rev (sort_key r_createdAt (filter (\<lambda>r. r_videoId r = videoId) (rows s))))"

definition parse_items :: "runtime \<Rightarrow> string list \<Rightarrow> json list" where
  "parse_items rt arr = filter truthy (List.map_filter (JSON_parse rt) arr)"

text \<open>The items of the response, or the error of the 400 response.\<close>

definition get_comments :: "runtime \<Rightarrow> config \<Rightarrow> bool \<Rightarrow> cache \<Rightarrow> db \<Rightarrow> get_request
    \<Rightarrow> string + json list" where
  "get_comments rt cfg cache_read_fails c s req =
     (let videoId = or_default (g_videoId req) [] in
      if videoId = [] then Inl ''videoId required''
      else
        let limit = effective_limit (g_limit req);
            scope = toLowerCase rt (or_default (g_scope req) ''live'');
            key = ''chat:'' @ scope @ '':'' @ videoId;
            arr = (if redis cfg \<and> \<not> cache_read_fails
                   then lrange 0 (int limit - 1) (c key) else [])
        in if length arr > 0 then Inr (rev (parse_items rt arr))
           else Inr (rev (map (json_of_row rt) (findMany_desc s videoId limit))))"

section \<open>Notions used to state the properties\<close>

text \<open>
  What the validation loop of the workers makes of one message: the data object for the
  store, or \<open>None\<close> for a message that is not valid.
\<close>

definition decoded :: "runtime \<Rightarrow> string \<Rightarrow> new_comment option" where
  "decoded rt m =
     (case JSON_parse rt m of
        None \<Rightarrow> None
      | Some d \<Rightarrow> if valid_shape d then to_new_comment rt d else None)"

fun is_store_write :: "effect \<Rightarrow> bool" where
  "is_store_write (DbCreate d) = True"
| "is_store_write (DbCreateMany ds) = True"
| "is_store_write e = False"

fun is_enqueue :: "effect \<Rightarrow> bool" where
  "is_enqueue (ProducerSend topic key v) = True"
| "is_enqueue e = False"

fun is_broadcast :: "effect \<Rightarrow> bool" where
  "is_broadcast (RedisPublish channel text) = True"
| "is_broadcast (LocalEmit channel text) = True"
| "is_broadcast e = False"

fun is_dead_letter :: "effect \<Rightarrow> bool" where
  "is_dead_letter (DlqPush ms) = True"
| "is_dead_letter e = False"

fun is_ack :: "effect \<Rightarrow> bool" where
  "is_ack (QueueTrim n) = True"
| "is_ack (ResolveOffset off) = True"
| "is_ack e = False"

text \<open>The final disposition of a queue entry: a write to the store or to the dead letters.\<close>

fun is_disposition :: "effect \<Rightarrow> bool" where
  "is_disposition (DbCreate d) = True"
| "is_disposition (DbCreateMany ds) = True"
| "is_disposition (DlqPush ms) = True"
| "is_disposition e = False"

text \<open>A persistence attempt of an ingestion path: an enqueue or a store write.\<close>

fun is_persist_attempt :: "effect \<Rightarrow> bool" where
  "is_persist_attempt (ProducerSend topic key v) = True"
| "is_persist_attempt (DbCreate d) = True"
| "is_persist_attempt (DbCreateMany ds) = True"
| "is_persist_attempt e = False"

text \<open>\<open>none_after P Q tr\<close>: in the trace \<open>tr\<close> no \<open>P\<close> call is made after a \<open>Q\<close> call.\<close>

fun none_after :: "(effect \<Rightarrow> bool) \<Rightarrow> (effect \<Rightarrow> bool) \<Rightarrow> effect list \<Rightarrow> bool" where
  "none_after P Q [] = True"
| "none_after P Q (e # es) = ((if Q e then \<not> list_ex P es else True) \<and> none_after P Q es)"

fun is_subscribe :: "effect \<Rightarrow> bool" where
  "is_subscribe (RedisSubscribe channel) = True"
| "is_subscribe e = False"

text \<open>Every id of the store is one that the id default generated earlier.\<close>

definition generated_ids :: "runtime \<Rightarrow> db \<Rightarrow> bool" where
  "generated_ids rt s \<longleftrightarrow> set (map r_id (rows s)) \<subseteq> default_id rt ` {..<generated s}"

text \<open>
  A socket message that the handler accepts as a comment: it decodes to \<open>data\<close>, has the
  shape of a comment, and nothing throws inside the handler's \<open>try\<close>.
\<close>

definition socket_accepted :: "runtime \<Rightarrow> string \<Rightarrow> json \<Rightarrow> bool" where
  "socket_accepted rt raw data \<longleftrightarrow>
     JSON_parse rt raw = Some data \<and> truthy data
     \<and> field data ''type'' = Some (JStr ''comment'')
     \<and> truthy_field data ''videoId'' \<and> truthy_field data ''userId''
     \<and> truthy_field data ''content''
     \<and> str_field rt data ''content'' \<noteq> None \<and> str_field rt data ''videoId'' \<noteq> None
     \<and> str_field rt data ''userId'' \<noteq> None
     \<and> scope_of rt (field data ''scope'') \<noteq> None"

text \<open>The conversion of the reply target, where the message names one, does not throw.\<close>

definition reply_converts :: "runtime \<Rightarrow> json \<Rightarrow> bool" where
  "reply_converts rt data \<longleftrightarrow>
     (if truthy_field data ''replyToUserId'' then str_field rt data ''replyToUserId'' \<noteq> None
      else True)"

text \<open>
  What the loop of \<open>eachBatch\<close> makes of a message that it consumes: the data for the
  store (if any), the warning it logs (if any), and its calls for the message.
\<close>

definition k_decoded :: "runtime \<Rightarrow> kmessage \<Rightarrow> new_comment option" where
  "k_decoded rt m = (case k_value m of None \<Rightarrow> None | Some v \<Rightarrow> decoded rt v)"

definition skip_warning :: "runtime \<Rightarrow> kmessage \<Rightarrow> effect list" where
  "skip_warning rt m =
     (case k_value m of
        None \<Rightarrow> []
      | Some v \<Rightarrow>
          (case JSON_parse rt v of
             None \<Rightarrow> [LogWarn ''parse'']
           | Some d \<Rightarrow>
               if valid_shape d
               then (case to_new_comment rt d of None \<Rightarrow> [LogWarn ''parse''] | Some c \<Rightarrow> [])
               else [LogWarn ''invalid'']))"

definition consumed :: "runtime \<Rightarrow> kmessage list \<Rightarrow> effect list" where
  "consumed rt msgs =
     concat (map (\<lambda>m. skip_warning rt m @ [ResolveOffset (k_offset m), Heartbeat]) msgs)"

text \<open>
  A batch that the loop of \<open>eachBatch\<close> runs through: the consumer stays live, no
  heartbeat fails and no message value is \<open>null\<close>.
\<close>

definition steady :: "kafka_env \<Rightarrow> kmessage list \<Rightarrow> bool" where
  "steady env msgs \<longleftrightarrow>
     list_all (\<lambda>m. k_live env (k_offset m) \<and> \<not> k_heartbeat_fails env (k_offset m)
                  \<and> k_value m \<noteq> None) msgs"

text \<open>The number of \<open>lrange\<close> calls in a trace: one per run of \<open>processBatch\<close>.\<close>

fun is_fetch :: "effect \<Rightarrow> bool" where
  "is_fetch QueueRange = True"
| "is_fetch e = False"

text \<open>
  A connection that the registry does not know: it has no listener on the local bus and
  is a member of no room.
\<close>

definition untouched :: "nat \<Rightarrow> registry \<Rightarrow> bool" where
  "untouched ws st \<longleftrightarrow>
     ws \<notin> snd ` set (listeners st) \<and> (\<forall>m \<in> ran (roomSubscribers st). ws \<notin> m)"

section \<open>An example runtime\<close>

text \<open>
  The text that \<open>JSON.stringify\<close> gives for a value whose strings need no escaping
  (numbers are not rendered: the examples have none); the examples use it as the
  \<open>JSON_stringify\<close> of a runtime whose \<open>JSON_parse\<close> decodes exactly the texts of
  \<open>example_values\<close> and rejects every other text. Its \<open>String\<close> is exact on strings,
  \<open>null\<close>, booleans and objects (it throws for an object with a property \<open>toString\<close>),
  its \<open>toLowerCase\<close> on texts without capital letters, and its \<open>toISOString\<close> on the
  instants 0 and 1000 (milliseconds); the examples use no other arguments, and none is a
  rejected body, so its \<open>flatten\<close> is never looked at.
\<close>

fun join :: "string \<Rightarrow> string list \<Rightarrow> string" where
  "join sep [] = []"
| "join sep [x] = x"
| "join sep (x # y # zs) = x @ sep @ join sep (y # zs)"

definition quoted :: "string \<Rightarrow> string" where
  "quoted s = [CHR 0x22] @ s @ [CHR 0x22]"

fun json_text :: "json \<Rightarrow> string" where
  "json_text JNull = ''null''"
| "json_text (JBool b) = (if b then ''true'' else ''false'')"
| "json_text (JNum x) = ''0''"
| "json_text (JStr s) = quoted s"
| "json_text (JArr xs) = ''['' @ join '','' (map json_text xs) @ '']''"
| "json_text (JObj kvs) =
     ''{'' @ join '','' (map (\<lambda>(k, v). quoted k @ '':'' @ json_text v) kvs) @ ''}''"

definition sample_comment :: comment where
  "sample_comment =
     \<lparr>c_id = ''uuid-1'', c_videoId = ''v1'', c_userId = ''u1'', c_content = ''hi'',
      c_createdAt = ''1970-01-01T00:00:00.000Z'', c_replyToId = None, c_replyToUserId = None\<rparr>"

definition sample_new :: new_comment where
  "sample_new = \<lparr>nc_videoId = ''v1'', nc_userId = ''u1'', nc_content = ''hi''\<rparr>"

definition sample_body :: json where
  "sample_body =
     JObj [(''videoId'', JStr ''v1''), (''userId'', JStr ''u1''), (''content'', JStr ''hi'')]"

definition sample_socket_message :: json where
  "sample_socket_message =
     JObj [(''type'', JStr ''comment''), (''videoId'', JStr ''v1''), (''userId'', JStr ''u1''),
           (''content'', JStr ''hi'')]"

definition numbered_comment :: "string \<Rightarrow> comment" where
  "numbered_comment i = sample_comment\<lparr>c_id := i\<rparr>"

text \<open>A queue entry and a socket message with a field whose conversion throws.\<close>

definition throwing_entry :: json where
  "throwing_entry =
     JObj [(''videoId'', JObj [(''toString'', JBool True)]), (''userId'', JStr ''u1''),
           (''content'', JStr ''hi'')]"

definition throwing_socket_message :: json where
  "throwing_socket_message =
     JObj [(''type'', JStr ''comment''), (''videoId'', JStr ''v1''), (''userId'', JStr ''u1''),
           (''content'', JObj [(''toString'', JBool True)])]"

definition example_values :: "json list" where
  "example_values =
     [json_of_comment sample_comment, sample_body, JObj [(''videoId'', JStr ''v1'')],
      sample_socket_message, json_of_comment (numbered_comment ''uuid-2''),
      json_of_comment (numbered_comment ''uuid-3''), throwing_entry, throwing_socket_message]"

definition example_runtime :: runtime where
  "example_runtime =
     \<lparr>JSON_parse = (\<lambda>s. find (\<lambda>j. json_text j = s) example_values),
      JSON_stringify = json_text,
      String = (\<lambda>j. case j of
                  JStr s \<Rightarrow> Some s
                | JNull \<Rightarrow> Some ''null''
                | JBool b \<Rightarrow> Some (if b then ''true'' else ''false'')
                | JObj kvs \<Rightarrow>
                    (if map_of kvs ''toString'' = None then Some ''[object Object]'' else None)
                | _ \<Rightarrow> Some []),
      toLowerCase = (\<lambda>s. s),
      toISOString = (\<lambda>t. if t = 0 then ''1970-01-01T00:00:00.000Z''
                         else ''1970-01-01T00:00:01.000Z''),
      flatten = (\<lambda>b. JObj []),
      default_id = (\<lambda>n. ''ck'' @ replicate n (CHR ''0''))\<rparr>"

definition sample_text :: string where
  \<open>sample_text = ''{"id":"uuid-1","videoId":"v1","userId":"u1","content":"hi","createdAt":"1970-01-01T00:00:00.000Z"}''\<close>

definition stripped_text :: string where
  \<open>stripped_text = ''{"videoId":"v1","userId":"u1","content":"hi"}''\<close>

definition partial_text :: string where
  \<open>partial_text = ''{"videoId":"v1"}''\<close>

definition socket_text :: string where
  \<open>socket_text = ''{"type":"comment","videoId":"v1","userId":"u1","content":"hi"}''\<close>

definition second_text :: string where
  \<open>second_text = ''{"id":"uuid-2","videoId":"v1","userId":"u1","content":"hi","createdAt":"1970-01-01T00:00:00.000Z"}''\<close>

definition third_text :: string where
  \<open>third_text = ''{"id":"uuid-3","videoId":"v1","userId":"u1","content":"hi","createdAt":"1970-01-01T00:00:00.000Z"}''\<close>

definition throwing_entry_text :: string where
  \<open>throwing_entry_text = ''{"videoId":{"toString":true},"userId":"u1","content":"hi"}''\<close>

definition throwing_socket_text :: string where
  \<open>throwing_socket_text = ''{"type":"comment","videoId":"v1","userId":"u1","content":{"toString":true}}''\<close>

definition quiet :: batch_env where
  "quiet = \<lparr>lrange_fails = False, ltrim_fails = False, insert_fails = False,
            rpush_fails = False, db_time = 1000\<rparr>"

definition kafka_quiet :: kafka_env where
  "kafka_quiet = \<lparr>k_live = (\<lambda>off. True), k_heartbeat_fails = (\<lambda>off. False),
                  k_insert_fails = False, k_db_time = 1000\<rparr>"

definition failing_insert :: batch_env where
  "failing_insert = \<lparr>lrange_fails = False, ltrim_fails = False, insert_fails = True,
                     rpush_fails = False, db_time = 1000\<rparr>"

definition failing_store_and_dlq :: batch_env where
  "failing_store_and_dlq = \<lparr>lrange_fails = False, ltrim_fails = False, insert_fails = True,
                            rpush_fails = True, db_time = 1000\<rparr>"

definition kafka_failing_insert :: kafka_env where
  "kafka_failing_insert = \<lparr>k_live = (\<lambda>off. True), k_heartbeat_fails = (\<lambda>off. False),
                           k_insert_fails = True, k_db_time = 1000\<rparr>"

definition redis_on :: config where
  "redis_on = \<lparr>PERSIST_MODE = ''none'', SAMPLE_RATE = Finite 0, redis = True\<rparr>"

definition empty_registry :: registry where
  "empty_registry = \<lparr>roomSubscribers = Map.empty, listeners = []\<rparr>"

definition one_member :: registry where
  "one_member = \<lparr>roomSubscribers = [''r1'' \<mapsto> {2}], listeners = [(''room:r1'', 2)]\<rparr>"

definition persist_all :: config where
  "persist_all = \<lparr>PERSIST_MODE = ''all'', SAMPLE_RATE = Finite 0, redis = False\<rparr>"

definition persist_none :: config where
  "persist_none = \<lparr>PERSIST_MODE = ''none'', SAMPLE_RATE = Finite 0, redis = False\<rparr>"

definition sample_env :: request_env where
  "sample_env = \<lparr>uuid = ''uuid-1'', now = 0, random = 0, send_fails = False,
                 create_fails = False, db_now = 1000\<rparr>"

definition sample_request :: post_request where
  "sample_request = \<lparr>body = sample_body, q_scope = None, q_persist = Some ''1''\<rparr>"

definition sample_parsed :: parsed_body where
  "sample_parsed = \<lparr>p_videoId = ''v1'', p_userId = ''u1'', p_content = ''hi'',
                    p_replyToId = None, p_replyToUserId = None, p_persist = None\<rparr>"

definition sample_always :: config where
  "sample_always = \<lparr>PERSIST_MODE = ''sample'', SAMPLE_RATE = Finite 1, redis = False\<rparr>"

definition none_rate_one :: config where
  "none_rate_one = \<lparr>PERSIST_MODE = ''none'', SAMPLE_RATE = Finite 1, redis = False\<rparr>"

definition plain_request :: post_request where
  "plain_request = \<lparr>body = sample_body, q_scope = None, q_persist = None\<rparr>"

definition empty_db :: db where
  "empty_db = \<lparr>rows = [], generated = 0\<rparr>"

definition sample_row :: "string \<Rightarrow> row" where
  "sample_row i = \<lparr>r_id = i, r_videoId = ''v1'', r_userId = ''u1'', r_content = ''hi'',
                   r_createdAt = 1000\<rparr>"

section \<open>Facts about the example runtime\<close>

lemma example_runtime_simps:
  "String example_runtime (JStr s) = Some s"
  "String example_runtime (JObj [(''toString'', JBool True)]) = None"
  "default_id example_runtime n = ''ck'' @ replicate n (CHR ''0'')"
  "JSON_stringify example_runtime = json_text"
  "toLowerCase example_runtime s = s"
  "toISOString example_runtime 0 = ''1970-01-01T00:00:00.000Z''"
  by (simp_all add: example_runtime_def)

lemma json_text_samples:
  "json_text (json_of_comment sample_comment) = sample_text"
  "json_text sample_body = stripped_text"
  "json_text (json_of_new_comment sample_new) = stripped_text"
  "json_text (JObj [(''videoId'', JStr ''v1'')]) = partial_text"
  "json_text sample_socket_message = socket_text"
  "json_text (json_of_comment (numbered_comment ''uuid-2'')) = second_text"
  "json_text (json_of_comment (numbered_comment ''uuid-3'')) = third_text"
  "json_text throwing_entry = throwing_entry_text"
  "json_text throwing_socket_message = throwing_socket_text"
  by (simp_all add: json_of_comment_def sample_comment_def sample_text_def opt_prop_def
      quoted_def sample_body_def stripped_text_def json_of_new_comment_def sample_new_def
      partial_text_def sample_socket_message_def socket_text_def numbered_comment_def
      second_text_def third_text_def throwing_entry_def throwing_entry_text_def
      throwing_socket_message_def throwing_socket_text_def)

lemma example_parse:
  "JSON_parse example_runtime sample_text = Some (json_of_comment sample_comment)"
  "JSON_parse example_runtime stripped_text = Some sample_body"
  "JSON_parse example_runtime partial_text = Some (JObj [(''videoId'', JStr ''v1'')])"
  "JSON_parse example_runtime socket_text = Some sample_socket_message"
  "JSON_parse example_runtime second_text = Some (json_of_comment (numbered_comment ''uuid-2''))"
  "JSON_parse example_runtime third_text = Some (json_of_comment (numbered_comment ''uuid-3''))"
  "JSON_parse example_runtime throwing_entry_text = Some throwing_entry"
  "JSON_parse example_runtime throwing_socket_text = Some throwing_socket_message"
  "JSON_parse example_runtime ''not json'' = None"
  by (simp_all add: example_runtime_def example_values_def json_of_comment_def
      sample_comment_def sample_text_def opt_prop_def quoted_def sample_body_def
      stripped_text_def partial_text_def sample_socket_message_def socket_text_def
      numbered_comment_def second_text_def third_text_def throwing_entry_def
      throwing_entry_text_def throwing_socket_message_def throwing_socket_text_def)

lemma example_decoded:
  "decoded example_runtime sample_text = Some sample_new"
  "decoded example_runtime stripped_text = Some sample_new"
  "decoded example_runtime partial_text = None"
  "decoded example_runtime throwing_entry_text = None"
  "decoded example_runtime ''not json'' = None"
  by (simp_all add: decoded_def example_parse valid_shape_def truthy_field_def
      json_of_comment_def sample_comment_def opt_prop_def sample_body_def to_new_comment_def
      str_field_def example_runtime_simps sample_new_def throwing_entry_def)

lemma throwing_entry_valid_shape: "valid_shape throwing_entry"
  by (simp add: valid_shape_def truthy_field_def throwing_entry_def)

section \<open>Redis list calls of the service\<close>

lemma lrange_prefix:
  assumes "0 < k"
  shows "lrange 0 (int k - 1) xs = take k xs"
proof (cases "xs = []")
  case True
  then show ?thesis by (simp add: lrange_def)
next
  case False
  from assms have k: "nat (int k - 1 + 1) = k" by simp
  have n: "nat (int (length xs) - 1 + 1) = length xs" by simp
  show ?thesis
  proof (cases "int k - 1 < int (length xs) - 1")
    case True
    with False assms k show ?thesis by (simp add: lrange_def Let_def min_def)
  next
    case False
    with \<open>xs \<noteq> []\<close> assms n show ?thesis by (simp add: lrange_def Let_def min_def)
  qed
qed

lemma ltrim_suffix: "ltrim (int k) (- 1) xs = drop k xs"
  by (auto simp: ltrim_def lrange_def Let_def)

lemma ltrim_cap: "ltrim 0 499 xs = take 500 xs"
  using lrange_prefix [of 500 xs] by (simp add: ltrim_def)

section \<open>The validation loop\<close>

lemma classify_decoded:
  "classify rt ms valid invalid =
     (valid @ List.map_filter (decoded rt) ms,
      invalid @ filter (\<lambda>m. decoded rt m = None) ms)"
  by (induction ms arbitrary: valid invalid)
     (auto simp: decoded_def split: option.splits)

lemma decoded_partition:
  "length (List.map_filter (decoded rt) ms) + length (filter (\<lambda>m. decoded rt m = None) ms)
     = length ms"
  by (induction ms) (auto simp: List.map_filter_simps split: option.splits)

section \<open>What one batch of the list-queue worker does\<close>

lemma drop_min_length: "drop (min (length xs) k) xs = drop k xs"
  by (cases "k \<le> length xs") (simp_all add: min_def)

lemma batch_fetch: "lrange 0 (int BATCH_SIZE - 1) q = take 100 q"
  using lrange_prefix [of 100 q] by (simp add: BATCH_SIZE_def)

text \<open>The outer \<open>catch\<close> leaves no way out of \<open>processBatch\<close> but the return.\<close>

lemma processBatch_returns: "fst (processBatch rt env w) = Returned"
  by (cases "processBatch_try rt env w" rule: prod_cases3)
     (auto simp: processBatch_def split: outcome.splits)

lemma processBatch_fetches_once:
  "length (filter is_fetch (snd (snd (processBatch rt env w)))) = 1"
  by (auto simp: processBatch_def processBatch_try_def Let_def classify_decoded
      move_invalid_def push_dlq_def split: outcome.splits)

lemma startWorker_runs_every_batch:
  "fst (startWorker rt envs w) = Returned
   \<and> length (filter is_fetch (snd (snd (startWorker rt envs w)))) = length envs"
proof (induction envs arbitrary: w)
  case Nil
  then show ?case by simp
next
  case (Cons env envs)
  obtain w1 tr1 where p: "processBatch rt env w = (Returned, w1, tr1)"
    using processBatch_returns [of rt env w]
    by (cases "processBatch rt env w" rule: prod_cases3) auto
  obtain out w2 tr2 where r: "startWorker rt envs w1 = (out, w2, tr2)"
    by (cases "startWorker rt envs w1" rule: prod_cases3) auto
  from processBatch_fetches_once [of rt env w] p
  have one: "length (filter is_fetch tr1) = 1" by simp
  from Cons.IH [of w1] r have "out = Returned" "length (filter is_fetch tr2) = length envs"
    by simp_all
  with p r one show ?case by simp
qed

lemma startWorker_step:
  "startWorker rt (env # envs) w =
     (case startWorker rt envs (fst (snd (processBatch rt env w))) of
        (out, w2, tr2) \<Rightarrow> (out, w2, snd (snd (processBatch rt env w)) @ tr2))"
  using processBatch_returns [of rt env w]
  by (cases "processBatch rt env w" rule: prod_cases3) auto

lemma processBatch_stored:
  assumes "\<not> lrange_fails env" "\<not> ltrim_fails env" "\<not> insert_fails env" "\<not> rpush_fails env"
      and "queue w \<noteq> []"
  shows "processBatch rt env w =
     (Returned,
      w\<lparr>queue := drop 100 (queue w),
        dlq := dlq w @ filter (\<lambda>m. decoded rt m = None) (take 100 (queue w)),
        store := createMany rt (db_time env)
                   (List.map_filter (decoded rt) (take 100 (queue w))) (store w)\<rparr>,
      [QueueRange, QueueTrim (length (take 100 (queue w)))]
      @ (if List.map_filter (decoded rt) (take 100 (queue w)) = [] then []
         else [DbCreateMany (List.map_filter (decoded rt) (take 100 (queue w)))])
      @ (if filter (\<lambda>m. decoded rt m = None) (take 100 (queue w)) = [] then []
         else [DlqPush (filter (\<lambda>m. decoded rt m = None) (take 100 (queue w))),
               LogWarn ''moved'']))"
  using assms
  by (auto simp add: processBatch_def processBatch_try_def batch_fetch ltrim_suffix
      drop_min_length classify_decoded move_invalid_def push_dlq_def rpush_def Let_def)

lemma processBatch_insert_failure:
  assumes "\<not> lrange_fails env" "\<not> ltrim_fails env" "insert_fails env" "\<not> rpush_fails env"
      and "List.map_filter (decoded rt) (take 100 (queue w)) \<noteq> []"
  shows "processBatch rt env w =
     (Returned,
      w\<lparr>queue := drop 100 (queue w),
        dlq := dlq w
          @ map (\<lambda>c. JSON_stringify rt (json_of_new_comment c))
              (List.map_filter (decoded rt) (take 100 (queue w)))
          @ filter (\<lambda>m. decoded rt m = None) (take 100 (queue w))\<rparr>,
      [QueueRange, QueueTrim (length (take 100 (queue w))),
       DbCreateMany (List.map_filter (decoded rt) (take 100 (queue w))), LogError ''insert'',
       DlqPush (map (\<lambda>c. JSON_stringify rt (json_of_new_comment c))
                  (List.map_filter (decoded rt) (take 100 (queue w)))
                @ filter (\<lambda>m. decoded rt m = None) (take 100 (queue w)))])"
  using assms
  by (auto simp add: processBatch_def processBatch_try_def batch_fetch ltrim_suffix
      drop_min_length classify_decoded move_invalid_def push_dlq_def rpush_def Let_def
      List.map_filter_simps)

section \<open>Order of the calls of the workers\<close>

lemma none_after_append:
  "\<not> list_ex Q xs \<Longrightarrow> \<not> list_ex P ys \<Longrightarrow> none_after P Q (xs @ ys)"
proof (induction xs)
  case Nil
  then show ?case by (induction ys) (auto simp: list_ex_iff)
next
  case (Cons x xs)
  then show ?case by (auto simp: list_ex_iff)
qed

lemma eachBatch_loop_trace:
  "eachBatch_loop rt env ms valid tr = (out, valid', tr') \<Longrightarrow>
   \<exists>more. tr' = tr @ more \<and> \<not> list_ex is_disposition more"
proof (induction ms arbitrary: valid tr)
  case Nil
  then show ?case by simp
next
  case (Cons m ms)
  show ?case
  proof (cases "k_live env (k_offset m)")
    case False
    with Cons.prems show ?thesis by simp
  next
    case live: True
    show ?thesis
    proof (cases "k_value m")
      case None
      with Cons.prems live show ?thesis by simp
    next
      case (Some v)
      obtain valid1 tr1 where step:
        "(case JSON_parse rt v of
            None \<Rightarrow> (valid, tr @ [LogWarn ''parse''])
          | Some d \<Rightarrow>
              if valid_shape d
              then (case to_new_comment rt d of
                      None \<Rightarrow> (valid, tr @ [LogWarn ''parse''])
                    | Some c \<Rightarrow> (valid @ [c], tr))
              else (valid, tr @ [LogWarn ''invalid''])) = (valid1, tr1)"
        by (cases "(case JSON_parse rt v of
            None \<Rightarrow> (valid, tr @ [LogWarn ''parse''])
          | Some d \<Rightarrow>
              if valid_shape d
              then (case to_new_comment rt d of
                      None \<Rightarrow> (valid, tr @ [LogWarn ''parse''])
                    | Some c \<Rightarrow> (valid @ [c], tr))
              else (valid, tr @ [LogWarn ''invalid'']))") auto
      then obtain w1 where tr1: "tr1 = tr @ w1" "\<not> list_ex is_disposition w1"
        by (auto split: option.splits if_splits)
      show ?thesis
      proof (cases "k_heartbeat_fails env (k_offset m)")
        case True
        with Cons.prems live Some step tr1 show ?thesis by auto
      next
        case False
        with Cons.prems live Some step
        have "eachBatch_loop rt env ms valid1 (tr1 @ [ResolveOffset (k_offset m), Heartbeat])
                = (out, valid', tr')" by simp
        from Cons.IH [OF this] tr1 show ?thesis by auto
      qed
    qed
  qed
qed

lemma eachBatch_acks_first:
  "none_after is_ack is_disposition (snd (snd (eachBatch rt env ms s)))"
proof -
  obtain out valid tr where l: "eachBatch_loop rt env ms [] [] = (out, valid, tr)"
    by (cases "eachBatch_loop rt env ms [] []") auto
  from eachBatch_loop_trace [OF l] have nd: "\<not> list_ex is_disposition tr" by auto
  have a: "none_after is_ack is_disposition (tr @ [])"
    by (rule none_after_append [OF nd]) simp
  have b: "none_after is_ack is_disposition (tr @ [DbCreateMany valid])"
    by (rule none_after_append [OF nd]) simp
  have c: "none_after is_ack is_disposition (tr @ [DbCreateMany valid, LogError ''insert''])"
    by (rule none_after_append [OF nd]) simp
  from l a b c show ?thesis
    by (cases out) (auto simp: eachBatch_def)
qed

lemma eachBatch_no_dead_letter:
  "\<not> list_ex is_dead_letter (snd (snd (eachBatch rt env ms s)))"
proof -
  obtain out valid tr where l: "eachBatch_loop rt env ms [] [] = (out, valid, tr)"
    by (cases "eachBatch_loop rt env ms [] []") auto
  from eachBatch_loop_trace [OF l] have nd: "\<not> list_ex is_disposition tr" by auto
  have "\<not> list_ex is_dead_letter tr"
  proof
    assume "list_ex is_dead_letter tr"
    then obtain e where e: "e \<in> set tr" "is_dead_letter e" by (auto simp: list_ex_iff)
    from e(2) have "is_disposition e" by (cases e) simp_all
    with e(1) nd show False by (auto simp: list_ex_iff)
  qed
  with l show ?thesis by (cases out) (auto simp: eachBatch_def)
qed

lemma eachBatch_insert_failure:
  "k_insert_fails env \<Longrightarrow> fst (snd (eachBatch rt env ms s)) = s"
  by (cases "eachBatch_loop rt env ms [] []" rule: prod_cases3)
     (auto simp: eachBatch_def split: outcome.splits)

lemma processBatch_acks_first:
  "none_after is_ack is_disposition (snd (snd (processBatch rt env w)))"
  by (auto simp: processBatch_def processBatch_try_def Let_def classify_decoded
      move_invalid_def push_dlq_def split: outcome.splits)

text \<open>A batch that the loop runs through: what \<open>eachBatch\<close> does with it, call by call.\<close>

lemma eachBatch_loop_steady:
  assumes "steady env ms"
  shows "eachBatch_loop rt env ms valid tr
           = (Returned, valid @ List.map_filter (k_decoded rt) ms, tr @ consumed rt ms)"
  using assms
proof (induction ms arbitrary: valid tr)
  case Nil
  then show ?case by (simp add: consumed_def List.map_filter_simps)
next
  case (Cons m ms)
  from Cons.prems obtain v where m: "k_live env (k_offset m)"
      "\<not> k_heartbeat_fails env (k_offset m)" "k_value m = Some v" and rest: "steady env ms"
    by (auto simp: steady_def)
  note ih = Cons.IH [OF rest]
  show ?case
  proof (cases "JSON_parse rt v")
    case None
    with m ih show ?thesis
      by (simp add: consumed_def skip_warning_def k_decoded_def decoded_def
          List.map_filter_simps)
  next
    case (Some d)
    show ?thesis
    proof (cases "valid_shape d")
      case False
      with m ih Some show ?thesis
        by (simp add: consumed_def skip_warning_def k_decoded_def decoded_def
            List.map_filter_simps)
    next
      case True
      with m ih Some show ?thesis
        by (cases "to_new_comment rt d")
           (simp_all add: consumed_def skip_warning_def k_decoded_def decoded_def
             List.map_filter_simps)
    qed
  qed
qed

lemma eachBatch_steady:
  assumes "steady env msgs"
  shows "eachBatch rt env msgs s =
     (Returned,
      (if List.map_filter (k_decoded rt) msgs = [] \<or> k_insert_fails env then s
       else createMany rt (k_db_time env) (List.map_filter (k_decoded rt) msgs) s),
      consumed rt msgs
      @ (if List.map_filter (k_decoded rt) msgs = [] then []
         else if k_insert_fails env
         then [DbCreateMany (List.map_filter (k_decoded rt) msgs), LogError ''insert'']
         else [DbCreateMany (List.map_filter (k_decoded rt) msgs)]))"
  by (simp add: eachBatch_def eachBatch_loop_steady [OF assms])

lemma consumed_acks:
  "filter is_ack (consumed rt msgs) = map (\<lambda>m. ResolveOffset (k_offset m)) msgs"
proof (induction msgs)
  case Nil
  then show ?case by (simp add: consumed_def)
next
  case (Cons m msgs)
  have "filter is_ack (skip_warning rt m) = []"
    by (auto simp: skip_warning_def split: option.splits)
  with Cons show ?case by (simp add: consumed_def)
qed

lemma consumed_no_disposition: "\<not> list_ex is_disposition (consumed rt msgs)"
proof (induction msgs)
  case Nil
  then show ?case by (simp add: consumed_def)
next
  case (Cons m msgs)
  have "\<not> list_ex is_disposition (skip_warning rt m)"
    by (auto simp: skip_warning_def split: option.splits)
  with Cons show ?case by (simp add: consumed_def)
qed

section \<open>C1: replay of a queue entry\<close>

text \<open>
  With an id default that never repeats an id, every delivery of a valid entry adds a row:
  the entry's own id plays no part.
\<close>

lemma createMany_adds_rows:
  assumes "inj (default_id rt)" and "generated_ids rt s"
  shows "length (rows (createMany rt t ds s)) = length (rows s) + length ds
       \<and> generated_ids rt (createMany rt t ds s)"
  using assms(2)
proof (induction ds arbitrary: s)
  case Nil
  then show ?case by simp
next
  case (Cons d ds)
  let ?r = "mk_row rt t (generated s) d"
  let ?s = "s\<lparr>generated := Suc (generated s), rows := rows s @ [?r]\<rparr>"
  have fresh: "r_id ?r \<notin> set (map r_id (rows s))"
  proof
    assume "r_id ?r \<in> set (map r_id (rows s))"
    with Cons.prems obtain k where "k < generated s" "default_id rt k = default_id rt (generated s)"
      by (auto simp: generated_ids_def mk_row_def)
    with assms(1) show False by (auto dest: injD)
  qed
  have "generated_ids rt ?s"
    using Cons.prems by (auto simp: generated_ids_def mk_row_def less_Suc_eq)
  from Cons.IH [OF this] fresh show ?case by (simp add: Let_def)
qed

lemma eachBatch_single:
  assumes "k_decoded rt m = Some c" and "k_live env (k_offset m)"
      and "\<not> k_heartbeat_fails env (k_offset m)" and "\<not> k_insert_fails env"
  shows "fst (snd (eachBatch rt env [m] s)) = createMany rt (k_db_time env) [c] s"
proof -
  from assms(1) have "k_value m \<noteq> None"
    by (cases "k_value m") (simp_all add: k_decoded_def)
  with assms(2,3) have "steady env [m]" by (simp add: steady_def)
  from eachBatch_steady [OF this, of rt s] assms(1,4) show ?thesis
    by (simp add: List.map_filter_simps)
qed

lemma redelivery_adds_a_row:
  assumes "inj (default_id rt)" and "generated_ids rt s"
      and "k_decoded rt m = Some c" and "k_live env (k_offset m)"
      and "\<not> k_heartbeat_fails env (k_offset m)" and "\<not> k_insert_fails env"
  shows "length (rows (fst (snd (eachBatch rt env [m] (fst (snd (eachBatch rt env [m] s)))))))
           = length (rows s) + 2"
proof -
  note one = eachBatch_single [OF assms(3-6)]
  from createMany_adds_rows [OF assms(1,2), of "k_db_time env" "[c]"]
  have first: "length (rows (createMany rt (k_db_time env) [c] s)) = length (rows s) + 1"
    "generated_ids rt (createMany rt (k_db_time env) [c] s)"
    by simp_all
  from createMany_adds_rows [OF assms(1) first(2), of "k_db_time env" "[c]"] first(1)
  show ?thesis by (simp only: one) simp
qed

lemma example_k_decoded:
  "k_decoded example_runtime \<lparr>k_offset = off, k_value = Some sample_text\<rparr> = Some sample_new"
  "k_decoded example_runtime \<lparr>k_offset = off, k_value = Some partial_text\<rparr> = None"
  "k_decoded example_runtime \<lparr>k_offset = off, k_value = Some throwing_entry_text\<rparr> = None"
  "k_decoded example_runtime \<lparr>k_offset = off, k_value = Some ''not json''\<rparr> = None"
  by (simp_all add: k_decoded_def example_decoded)

lemma example_skip_warning:
  "skip_warning example_runtime \<lparr>k_offset = off, k_value = Some sample_text\<rparr> = []"
  "skip_warning example_runtime \<lparr>k_offset = off, k_value = Some partial_text\<rparr>
     = [LogWarn ''invalid'']"
  "skip_warning example_runtime \<lparr>k_offset = off, k_value = Some throwing_entry_text\<rparr>
     = [LogWarn ''parse'']"
  "skip_warning example_runtime \<lparr>k_offset = off, k_value = Some ''not json''\<rparr>
     = [LogWarn ''parse'']"
  by (simp_all add: skip_warning_def example_parse valid_shape_def truthy_field_def
      json_of_comment_def sample_comment_def opt_prop_def to_new_comment_def str_field_def
      example_runtime_simps throwing_entry_def)

lemma kafka_quiet_simps:
  "k_insert_fails kafka_quiet = False" "k_db_time kafka_quiet = 1000"
  "k_insert_fails kafka_failing_insert = True"
  by (simp_all add: kafka_quiet_def kafka_failing_insert_def)

lemma kafka_steady:
  "list_all (\<lambda>m. k_value m \<noteq> None) msgs \<Longrightarrow> steady kafka_quiet msgs"
  "list_all (\<lambda>m. k_value m \<noteq> None) msgs \<Longrightarrow> steady kafka_failing_insert msgs"
  by (induction msgs) (simp_all add: steady_def kafka_quiet_def kafka_failing_insert_def)

text \<open>
  C1. The claim: delivering the same queue entry (same comment id) twice leaves exactly
  one stored row, because the bulk insert skips a duplicate comment id. The code does not
  do this. Both workers copy only \<open>videoId\<close>, \<open>userId\<close> and \<open>content\<close> into the data of
  \<open>createMany\<close>; the id of the entry is dropped, the store generates a new id for every
  row, and \<open>skipDuplicates\<close> never finds a duplicate. The entry \<open>sample_text\<close> (id
  \<open>uuid-1\<close>), delivered a second time to \<open>processBatch\<close> or to \<open>eachBatch\<close>, gives a
  second row.
\<close>

theorem redelivery_stores_second_row:
  "fst (snd (processBatch example_runtime quiet
       \<lparr>queue = [sample_text], dlq = [], store = empty_db\<rparr>))
     = \<lparr>queue = [], dlq = [], store = \<lparr>rows = [sample_row ''ck''], generated = 1\<rparr>\<rparr>
   \<and> fst (snd (processBatch example_runtime quiet
        \<lparr>queue = [sample_text], dlq = [], store = \<lparr>rows = [sample_row ''ck''], generated = 1\<rparr>\<rparr>))
     = \<lparr>queue = [], dlq = [],
        store = \<lparr>rows = [sample_row ''ck'', sample_row ''ck0''], generated = 2\<rparr>\<rparr>
   \<and> eachBatch example_runtime kafka_quiet [\<lparr>k_offset = 7, k_value = Some sample_text\<rparr>]
        empty_db
     = (Returned, \<lparr>rows = [sample_row ''ck''], generated = 1\<rparr>,
        [ResolveOffset 7, Heartbeat, DbCreateMany [sample_new]])
   \<and> eachBatch example_runtime kafka_quiet [\<lparr>k_offset = 7, k_value = Some sample_text\<rparr>]
        \<lparr>rows = [sample_row ''ck''], generated = 1\<rparr>
     = (Returned, \<lparr>rows = [sample_row ''ck'', sample_row ''ck0''], generated = 2\<rparr>,
        [ResolveOffset 7, Heartbeat, DbCreateMany [sample_new]])"
  by (simp add: processBatch_stored quiet_def example_decoded List.map_filter_simps
      empty_db_def mk_row_def sample_row_def sample_new_def example_runtime_simps
      eachBatch_steady kafka_steady example_k_decoded consumed_def example_skip_warning
      kafka_quiet_simps)

section \<open>C2: a batch whose bulk insert fails\<close>

text \<open>An insert that \<open>eachBatch\<close> attempts and that fails is logged, and nothing more.\<close>

lemma eachBatch_failed_insert:
  assumes "k_insert_fails env" and "list_ex is_store_write (snd (snd (eachBatch rt env msgs s)))"
  shows "\<exists>tr valid. eachBatch rt env msgs s
           = (Returned, s, tr @ [DbCreateMany valid, LogError ''insert''])
         \<and> \<not> list_ex is_disposition tr"
proof -
  obtain out valid tr where l: "eachBatch_loop rt env msgs [] [] = (out, valid, tr)"
    by (cases "eachBatch_loop rt env msgs [] []") auto
  from eachBatch_loop_trace [OF l] have nd: "\<not> list_ex is_disposition tr" by auto
  have nw: "\<not> list_ex is_store_write tr"
  proof
    assume "list_ex is_store_write tr"
    then obtain e where e: "e \<in> set tr" "is_store_write e" by (auto simp: list_ex_iff)
    from e(2) have "is_disposition e" by (cases e) simp_all
    with e(1) nd show False by (auto simp: list_ex_iff)
  qed
  show ?thesis
  proof (cases out)
    case Threw
    with l assms(2) nw show ?thesis by (simp add: eachBatch_def)
  next
    case Returned
    show ?thesis
    proof (cases "valid = []")
      case True
      with l Returned assms(2) nw show ?thesis by (simp add: eachBatch_def)
    next
      case False
      with l Returned assms(1) nd show ?thesis by (simp add: eachBatch_def)
    qed
  qed
qed

text \<open>
  C2. The claim: when the bulk insert of a batch fails, every entry of the batch is written
  to the dead-letter destination, no exception escapes, and the consumer goes on. The
  Kafka consumer has no dead-letter destination: on a failed insert \<open>eachBatch\<close> logs the
  error and returns, and the entry of the example is written nowhere.
\<close>

theorem kafka_insert_failure_not_dead_lettered:
  "eachBatch example_runtime kafka_failing_insert
     [\<lparr>k_offset = 7, k_value = Some sample_text\<rparr>] empty_db
   = (Returned, empty_db,
      [ResolveOffset 7, Heartbeat, DbCreateMany [sample_new], LogError ''insert''])"
  by (simp add: eachBatch_steady kafka_steady example_k_decoded consumed_def
      example_skip_warning kafka_quiet_simps List.map_filter_simps)

text \<open>
  C2, as the code has it. In the list-queue worker, when the bulk insert of a batch is
  attempted and the store rejects it, and the dead-letter push succeeds, \<open>processBatch\<close>
  has removed the batch from the queue, stores nothing, logs the error and appends one
  entry per message of the batch to the dead-letter list: for each valid message the JSON
  text of its \<open>videoId\<close>, \<open>userId\<close> and \<open>content\<close>, then each invalid message as it was.
  \<open>processBatch\<close> returns whatever fails, so \<open>startWorker\<close> runs every batch. The Kafka
  consumer has no dead-letter write: when the bulk insert of a batch that it has run
  through fails, it logs the error, leaves the store as it was and returns.
\<close>

theorem insert_failure_dead_letters_batch:
  assumes "\<not> lrange_fails env" and "\<not> ltrim_fails env" and "insert_fails env"
      and "\<not> rpush_fails env"
      and "List.map_filter (decoded rt) (take 100 (queue w)) \<noteq> []"
      and "k_insert_fails kenv" and "steady kenv msgs"
      and "List.map_filter (k_decoded rt) msgs \<noteq> []"
  shows "processBatch rt env w =
           (Returned,
            w\<lparr>queue := drop 100 (queue w),
              dlq := dlq w
                @ map (\<lambda>c. JSON_stringify rt (json_of_new_comment c))
                    (List.map_filter (decoded rt) (take 100 (queue w)))
                @ filter (\<lambda>m. decoded rt m = None) (take 100 (queue w))\<rparr>,
            [QueueRange, QueueTrim (length (take 100 (queue w))),
             DbCreateMany (List.map_filter (decoded rt) (take 100 (queue w))),
             LogError ''insert'',
             DlqPush (map (\<lambda>c. JSON_stringify rt (json_of_new_comment c))
                        (List.map_filter (decoded rt) (take 100 (queue w)))
                      @ filter (\<lambda>m. decoded rt m = None) (take 100 (queue w)))])
       \<and> length (dlq (fst (snd (processBatch rt env w))))
           = length (dlq w) + length (take 100 (queue w))
       \<and> fst (processBatch rt env2 w2) = Returned
       \<and> fst (startWorker rt envs w2) = Returned
       \<and> length (filter is_fetch (snd (snd (startWorker rt envs w2)))) = length envs
       \<and> eachBatch rt kenv msgs s =
           (Returned, s,
            consumed rt msgs
            @ [DbCreateMany (List.map_filter (k_decoded rt) msgs), LogError ''insert''])
       \<and> \<not> list_ex is_dead_letter (snd (snd (eachBatch rt kenv2 msgs2 s2)))"
proof -
  note pb = processBatch_insert_failure [OF assms(1-5)]
  have len: "length (dlq (fst (snd (processBatch rt env w))))
           = length (dlq w) + length (take 100 (queue w))"
    using decoded_partition [of rt "take 100 (queue w)"] by (simp add: pb)
  have kafka: "eachBatch rt kenv msgs s =
           (Returned, s,
            consumed rt msgs
            @ [DbCreateMany (List.map_filter (k_decoded rt) msgs), LogError ''insert''])"
    using assms(6,8) by (simp add: eachBatch_steady [OF assms(7)])
  from pb len kafka processBatch_returns [of rt env2 w2]
    startWorker_runs_every_batch [of rt envs w2]
    eachBatch_no_dead_letter [of rt kenv2 msgs2 s2]
  show ?thesis by blast
qed

theorem insert_failure_dead_letters_batch_witness:
  "processBatch example_runtime failing_insert
      \<lparr>queue = [sample_text, throwing_entry_text, ''not json''], dlq = [], store = empty_db\<rparr>
     = (Returned,
        \<lparr>queue = [], dlq = [stripped_text, throwing_entry_text, ''not json''],
          store = empty_db\<rparr>,
        [QueueRange, QueueTrim 3, DbCreateMany [sample_new], LogError ''insert'',
         DlqPush [stripped_text, throwing_entry_text, ''not json'']])
   \<and> eachBatch example_runtime kafka_failing_insert
        [\<lparr>k_offset = 7, k_value = Some sample_text\<rparr>,
         \<lparr>k_offset = 8, k_value = Some partial_text\<rparr>] empty_db
     = (Returned, empty_db,
        [ResolveOffset 7, Heartbeat, LogWarn ''invalid'', ResolveOffset 8, Heartbeat,
         DbCreateMany [sample_new], LogError ''insert''])"
proof -
  let ?w = "\<lparr>queue = [sample_text, throwing_entry_text, ''not json''], dlq = [],
             store = empty_db\<rparr>"
  let ?msgs = "[\<lparr>k_offset = 7, k_value = Some sample_text\<rparr>,
                \<lparr>k_offset = 8, k_value = Some partial_text\<rparr>]"
  have a: "\<not> lrange_fails failing_insert" "\<not> ltrim_fails failing_insert"
    "insert_fails failing_insert" "\<not> rpush_fails failing_insert"
    by (simp_all add: failing_insert_def)
  have b: "List.map_filter (decoded example_runtime) (take 100 (queue ?w)) \<noteq> []"
    by (simp add: List.map_filter_simps example_decoded)
  have c: "k_insert_fails kafka_failing_insert" by (simp add: kafka_quiet_simps)
  have d: "steady kafka_failing_insert ?msgs" by (simp add: kafka_steady)
  have e: "List.map_filter (k_decoded example_runtime) ?msgs \<noteq> []"
    by (simp add: List.map_filter_simps example_k_decoded)
  note t = insert_failure_dead_letters_batch [OF a b c d e, where s = empty_db]
  from t have "processBatch example_runtime failing_insert ?w =
           (Returned,
            ?w\<lparr>queue := drop 100 (queue ?w),
              dlq := dlq ?w
                @ map (\<lambda>c. JSON_stringify example_runtime (json_of_new_comment c))
                    (List.map_filter (decoded example_runtime) (take 100 (queue ?w)))
                @ filter (\<lambda>m. decoded example_runtime m = None) (take 100 (queue ?w))\<rparr>,
            [QueueRange, QueueTrim (length (take 100 (queue ?w))),
             DbCreateMany (List.map_filter (decoded example_runtime) (take 100 (queue ?w))),
             LogError ''insert'',
             DlqPush (map (\<lambda>c. JSON_stringify example_runtime (json_of_new_comment c))
                        (List.map_filter (decoded example_runtime) (take 100 (queue ?w)))
                      @ filter (\<lambda>m. decoded example_runtime m = None) (take 100 (queue ?w)))])
       \<and> eachBatch example_runtime kafka_failing_insert ?msgs empty_db =
           (Returned, empty_db,
            consumed example_runtime ?msgs
            @ [DbCreateMany (List.map_filter (k_decoded example_runtime) ?msgs),
               LogError ''insert''])"
    by blast
  then show ?thesis
    by (simp add: List.map_filter_simps example_decoded example_k_decoded consumed_def
        example_skip_warning example_runtime_simps json_text_samples)
qed

section \<open>C3: acknowledgement and disposition\<close>

text \<open>
  C3. The claim: an entry is acknowledged (offset resolved, or removed from the queue) only
  after it has been stored or dead-lettered, and no entry is removed and then neither
  stored nor dead-lettered. In the code the order is the other way round, and entries are
  dropped: \<open>eachBatch\<close> resolves the offset of an invalid entry and writes it nowhere;
  \<open>processBatch\<close> has trimmed the queue when the insert and the dead-letter push both
  fail, and the entry is in neither place.
\<close>

theorem acknowledged_entries_dropped:
  "eachBatch example_runtime kafka_quiet [\<lparr>k_offset = 7, k_value = Some partial_text\<rparr>]
      empty_db
     = (Returned, empty_db, [LogWarn ''invalid'', ResolveOffset 7, Heartbeat])
   \<and> processBatch example_runtime failing_store_and_dlq
        \<lparr>queue = [sample_text], dlq = [], store = empty_db\<rparr>
     = (Returned, \<lparr>queue = [], dlq = [], store = empty_db\<rparr>,
        [QueueRange, QueueTrim 1, DbCreateMany [sample_new], LogError ''insert'',
         DlqPush [stripped_text], LogError ''worker''])
   \<and> \<not> none_after is_disposition is_ack
        [QueueRange, QueueTrim 1, DbCreateMany [sample_new], LogError ''insert'',
         DlqPush [stripped_text], LogError ''worker'']"
  by (simp add: eachBatch_steady kafka_steady example_k_decoded consumed_def
      example_skip_warning kafka_quiet_simps
      processBatch_def processBatch_try_def batch_fetch ltrim_def lrange_def classify_decoded
      example_decoded List.map_filter_simps failing_store_and_dlq_def push_dlq_def Let_def
      example_runtime_simps json_text_samples)

text \<open>
  C3, as the code has it. Both consumers mark the entries as consumed before their
  disposition. \<open>processBatch\<close> trims the fetched entries from the queue first; when no call
  fails, it then passes every removed valid entry to the bulk insert and pushes every
  removed invalid entry, as it was, to the dead-letter list. \<open>eachBatch\<close>, for a batch that
  it runs through, resolves the offset of every message, in order, and only then makes the
  bulk insert of the valid ones. In no run of either consumer does an acknowledgement
  follow a disposition, and \<open>eachBatch\<close> never writes a dead letter.
\<close>

theorem acknowledgement_precedes_disposition:
  assumes "\<not> lrange_fails env" and "\<not> ltrim_fails env" and "\<not> insert_fails env"
      and "\<not> rpush_fails env" and "queue w \<noteq> []" and "steady kenv msgs"
  shows "processBatch rt env w =
           (Returned,
            w\<lparr>queue := drop 100 (queue w),
              dlq := dlq w @ filter (\<lambda>m. decoded rt m = None) (take 100 (queue w)),
              store := createMany rt (db_time env)
                         (List.map_filter (decoded rt) (take 100 (queue w))) (store w)\<rparr>,
            [QueueRange, QueueTrim (length (take 100 (queue w)))]
            @ (if List.map_filter (decoded rt) (take 100 (queue w)) = [] then []
               else [DbCreateMany (List.map_filter (decoded rt) (take 100 (queue w)))])
            @ (if filter (\<lambda>m. decoded rt m = None) (take 100 (queue w)) = [] then []
               else [DlqPush (filter (\<lambda>m. decoded rt m = None) (take 100 (queue w))),
                     LogWarn ''moved'']))
       \<and> none_after is_ack is_disposition (snd (snd (processBatch rt env2 w2)))
       \<and> eachBatch rt kenv msgs s =
           (Returned,
            (if List.map_filter (k_decoded rt) msgs = [] \<or> k_insert_fails kenv then s
             else createMany rt (k_db_time kenv) (List.map_filter (k_decoded rt) msgs) s),
            consumed rt msgs
            @ (if List.map_filter (k_decoded rt) msgs = [] then []
               else if k_insert_fails kenv
               then [DbCreateMany (List.map_filter (k_decoded rt) msgs), LogError ''insert'']
               else [DbCreateMany (List.map_filter (k_decoded rt) msgs)]))
       \<and> filter is_ack (consumed rt msgs) = map (\<lambda>m. ResolveOffset (k_offset m)) msgs
       \<and> \<not> list_ex is_disposition (consumed rt msgs)
       \<and> none_after is_ack is_disposition (snd (snd (eachBatch rt kenv2 msgs2 s2)))
       \<and> \<not> list_ex is_dead_letter (snd (snd (eachBatch rt kenv2 msgs2 s2)))"
  using processBatch_stored [OF assms(1-5), of rt] processBatch_acks_first [of rt env2 w2]
    eachBatch_steady [OF assms(6), of rt s] consumed_acks [of rt msgs]
    consumed_no_disposition [of rt msgs] eachBatch_acks_first [of rt kenv2 msgs2 s2]
    eachBatch_no_dead_letter [of rt kenv2 msgs2 s2]
  by blast

theorem acknowledgement_precedes_disposition_witness:
  "processBatch example_runtime quiet
      \<lparr>queue = [sample_text, ''not json''], dlq = [], store = empty_db\<rparr>
     = (Returned,
        \<lparr>queue = [], dlq = [''not json''],
          store = \<lparr>rows = [sample_row ''ck''], generated = 1\<rparr>\<rparr>,
        [QueueRange, QueueTrim 2, DbCreateMany [sample_new], DlqPush [''not json''],
         LogWarn ''moved''])
   \<and> eachBatch example_runtime kafka_quiet
        [\<lparr>k_offset = 7, k_value = Some sample_text\<rparr>,
         \<lparr>k_offset = 8, k_value = Some throwing_entry_text\<rparr>,
         \<lparr>k_offset = 9, k_value = Some sample_text\<rparr>] empty_db
     = (Returned,
        \<lparr>rows = [sample_row ''ck'', sample_row ''ck0''], generated = 2\<rparr>,
        [ResolveOffset 7, Heartbeat, LogWarn ''parse'', ResolveOffset 8, Heartbeat,
         ResolveOffset 9, Heartbeat, DbCreateMany [sample_new, sample_new]])
   \<and> filter is_ack
        [ResolveOffset 7, Heartbeat, LogWarn ''parse'', ResolveOffset 8, Heartbeat,
         ResolveOffset 9, Heartbeat]
     = [ResolveOffset 7, ResolveOffset 8, ResolveOffset 9]"
proof -
  let ?w = "\<lparr>queue = [sample_text, ''not json''], dlq = [], store = empty_db\<rparr>"
  let ?msgs = "[\<lparr>k_offset = 7, k_value = Some sample_text\<rparr>,
                \<lparr>k_offset = 8, k_value = Some throwing_entry_text\<rparr>,
                \<lparr>k_offset = 9, k_value = Some sample_text\<rparr>]"
  have a: "\<not> lrange_fails quiet" "\<not> ltrim_fails quiet" "\<not> insert_fails quiet"
    "\<not> rpush_fails quiet"
    by (simp_all add: quiet_def)
  have b: "queue ?w \<noteq> []" by simp
  have c: "steady kafka_quiet ?msgs" by (simp add: kafka_steady)
  note t = acknowledgement_precedes_disposition [OF a b c, where rt = example_runtime
      and s = empty_db]
  from t have "processBatch example_runtime quiet ?w =
           (Returned,
            ?w\<lparr>queue := drop 100 (queue ?w),
              dlq := dlq ?w
                @ filter (\<lambda>m. decoded example_runtime m = None) (take 100 (queue ?w)),
              store := createMany example_runtime (db_time quiet)
                         (List.map_filter (decoded example_runtime) (take 100 (queue ?w)))
                         (store ?w)\<rparr>,
            [QueueRange, QueueTrim (length (take 100 (queue ?w)))]
            @ (if List.map_filter (decoded example_runtime) (take 100 (queue ?w)) = [] then []
               else [DbCreateMany
                       (List.map_filter (decoded example_runtime) (take 100 (queue ?w)))])
            @ (if filter (\<lambda>m. decoded example_runtime m = None) (take 100 (queue ?w)) = []
               then []
               else [DlqPush (filter (\<lambda>m. decoded example_runtime m = None)
                                (take 100 (queue ?w))),
                     LogWarn ''moved'']))
       \<and> eachBatch example_runtime kafka_quiet ?msgs empty_db =
           (Returned,
            (if List.map_filter (k_decoded example_runtime) ?msgs = []
                \<or> k_insert_fails kafka_quiet then empty_db
             else createMany example_runtime (k_db_time kafka_quiet)
                    (List.map_filter (k_decoded example_runtime) ?msgs) empty_db),
            consumed example_runtime ?msgs
            @ (if List.map_filter (k_decoded example_runtime) ?msgs = [] then []
               else if k_insert_fails kafka_quiet
               then [DbCreateMany (List.map_filter (k_decoded example_runtime) ?msgs),
                     LogError ''insert'']
               else [DbCreateMany (List.map_filter (k_decoded example_runtime) ?msgs)]))
       \<and> filter is_ack (consumed example_runtime ?msgs)
           = map (\<lambda>m. ResolveOffset (k_offset m)) ?msgs"
    by blast
  then show ?thesis
    by (simp add: List.map_filter_simps example_decoded example_k_decoded consumed_def
        example_skip_warning example_runtime_simps kafka_quiet_simps quiet_def empty_db_def
        mk_row_def sample_row_def sample_new_def)
qed

section \<open>C4: subscription to the distributed channel\<close>

text \<open>
  The connection handler adds the room to \<open>roomSubscribers\<close> before it calls
  \<open>ensureSubscribeRoom\<close>, whose test \<open>!roomSubscribers.has(roomId)\<close> is then false: no
  connection ever issues the subscription.
\<close>

lemma on_connection_never_subscribes:
  "\<not> list_ex is_subscribe (snd (on_connection cfg ws q st))"
  by (auto simp: on_connection_def ensureSubscribeRoom_def Let_def split: url_query.splits)

text \<open>The close handler issues the unsubscription exactly when the last member leaves.\<close>

lemma on_close_unsubscribes:
  "snd (on_close cfg ws roomId st) =
     (if redis cfg \<and> (\<exists>members. roomSubscribers st roomId = Some members \<and> members - {ws} = {})
      then [RedisUnsubscribe (''room:'' @ roomId)] else [])"
  by (auto simp: on_close_def Let_def split: option.splits)

text \<open>
  C4. The claim: the subscription for a room is issued when the first local connection
  joins it, and the unsubscription when the last one leaves; a room that gains its first
  subscriber has a subscription in place. With Redis configured, the first connection to
  room \<open>r1\<close> is registered and gets its listener, but no subscription is issued; when it
  closes, the unsubscription is issued all the same.
\<close>

theorem first_join_issues_no_subscribe:
  "snd (on_connection redis_on 1 (RoomParam (Some ''r1'')) empty_registry) = []
   \<and> roomSubscribers (fst (on_connection redis_on 1 (RoomParam (Some ''r1'')) empty_registry))
       ''r1'' = Some {1}
   \<and> listeners (fst (on_connection redis_on 1 (RoomParam (Some ''r1'')) empty_registry))
       = [(''room:r1'', 1)]
   \<and> snd (on_close redis_on 1 ''r1''
        (fst (on_connection redis_on 1 (RoomParam (Some ''r1'')) empty_registry)))
       = [RedisUnsubscribe ''room:r1'']"
  by (simp add: on_connection_def ensureSubscribeRoom_def on_close_def redis_on_def
      empty_registry_def Let_def)

section \<open>C10: a connection without a room\<close>

lemma untouched_on_connection:
  assumes "untouched ws st" and "ws' \<noteq> ws"
  shows "untouched ws (fst (on_connection cfg ws' q st))"
  using assms
  by (auto simp: untouched_def on_connection_def Let_def ran_def split: url_query.splits
      option.splits if_splits)

lemma untouched_on_close:
  assumes "untouched ws st"
  shows "untouched ws (fst (on_close cfg ws' roomId st))"
proof -
  have "set (remove1 (''room:'' @ roomId, ws') (listeners st)) \<subseteq> set (listeners st)"
    by (rule set_remove1_subset)
  with assms show ?thesis
    by (auto simp: untouched_def on_close_def Let_def ran_def split: option.splits if_splits)
qed

lemma untouched_run:
  assumes "untouched ws st" and "ws \<notin> event_connection ` set evs"
  shows "untouched ws (registry_run cfg evs st)"
  using assms
proof (induction evs arbitrary: st)
  case Nil
  then show ?case by simp
next
  case (Cons e evs)
  have "untouched ws (registry_step cfg e st)"
  proof (cases e)
    case (Connect ws' q)
    with Cons.prems show ?thesis by (simp add: untouched_on_connection)
  next
    case (Close ws' roomId)
    with Cons.prems show ?thesis by (simp add: untouched_on_close)
  qed
  with Cons show ?case by simp
qed

lemma untouched_emit:
  "untouched ws st \<Longrightarrow> WsSend ws msg \<notin> set (emit st channel msg')"
  by (auto simp: untouched_def emit_def)

text \<open>
  C10. A new connection whose URL cannot be read or has no non-empty \<open>roomId\<close> is closed
  at once and the registry stays as it was; whatever connections and closes of other
  sockets follow, it has no listener on the local bus, is a member of no room, and no
  emit on any channel sends to it.
\<close>

theorem connection_without_room_is_closed:
  assumes "q = BadUrl \<or> q = RoomParam None \<or> q = RoomParam (Some [])"
      and "ws \<notin> snd ` set (listeners st)"
      and "\<forall>m \<in> ran (roomSubscribers st). ws \<notin> m"
      and "ws \<notin> event_connection ` set evs"
  shows "on_connection cfg ws q st = (st, [WsClose ws])
       \<and> ws \<notin> snd ` set (listeners (registry_run cfg evs (fst (on_connection cfg ws q st))))
       \<and> (\<forall>m \<in> ran (roomSubscribers (registry_run cfg evs (fst (on_connection cfg ws q st)))).
             ws \<notin> m)
       \<and> WsSend ws msg
            \<notin> set (emit (registry_run cfg evs (fst (on_connection cfg ws q st))) channel msg)"
proof -
  from assms(1) have closed: "on_connection cfg ws q st = (st, [WsClose ws])"
    by (auto simp: on_connection_def)
  from assms(2,3) have "untouched ws st" by (simp add: untouched_def)
  from untouched_run [OF this assms(4)]
  have u: "untouched ws (registry_run cfg evs (fst (on_connection cfg ws q st)))"
    by (simp add: closed)
  from closed u untouched_emit [OF u] show ?thesis
    by (simp add: untouched_def)
qed

theorem connection_without_room_is_closed_witness:
  "on_connection redis_on 1 (RoomParam None) one_member = (one_member, [WsClose 1])
   \<and> emit (registry_run redis_on [Connect 3 (RoomParam (Some ''r1''))]
            (fst (on_connection redis_on 1 (RoomParam None) one_member))) ''room:r1'' ''hello''
       = [WsSend 2 ''hello'', WsSend 3 ''hello'']
   \<and> WsSend 1 ''hello''
        \<notin> set (emit (registry_run redis_on [Connect 3 (RoomParam (Some ''r1''))]
            (fst (on_connection redis_on 1 (RoomParam None) one_member))) ''room:r1'' ''hello'')"
proof -
  have e: "emit (registry_run redis_on [Connect 3 (RoomParam (Some ''r1''))]
            (fst (on_connection redis_on 1 (RoomParam None) one_member))) ''room:r1'' ''hello''
       = [WsSend 2 ''hello'', WsSend 3 ''hello'']"
    by (simp add: on_connection_def one_member_def emit_def Let_def)
  have p1: "RoomParam None = BadUrl \<or> RoomParam None = RoomParam None
      \<or> RoomParam None = RoomParam (Some [])" by simp
  have p2: "(1::nat) \<notin> snd ` set (listeners one_member)" by (simp add: one_member_def)
  have p3: "\<forall>m \<in> ran (roomSubscribers one_member). (1::nat) \<notin> m"
    by (simp add: one_member_def)
  have p4: "(1::nat) \<notin> event_connection ` set [Connect 3 (RoomParam (Some ''r1''))]" by simp
  note t = connection_without_room_is_closed [OF p1 p2 p3 p4,
      where cfg = redis_on and msg = "''hello''" and channel = "''room:r1''"]
  from t e show ?thesis by blast
qed

section \<open>The calls of the ingestion handlers\<close>

lemma SAMPLE_RATE_clamped: "\<exists>x. SAMPLE_RATE_of n = Finite x \<and> 0 \<le> x \<and> x \<le> 1"
  by (cases n) (auto simp: SAMPLE_RATE_of_def)

lemma post_comments_accepted:
  assumes "createSchema (body req) = Some p"
  shows "post_comments rt cfg env req =
     (if shouldPersist cfg (forcePersist_of req p) (random env)
      then ProducerSend TOPIC_COMMENTS (p_videoId p)
             (JSON_stringify rt (json_of_comment (temp_of rt env p)))
           # (if send_fails env then [LogError ''kafka''] else [])
      else [])
     @ fst (publish rt cfg (p_videoId p) (payload_of ''comment'' (json_of_comment (temp_of rt env p))))
     @ fst (case p_replyToUserId p of None \<Rightarrow> ([], [])
            | Some u \<Rightarrow> if u = [] then ([], [])
                else publish rt cfg (''user:'' @ u)
                       (payload_of ''reply'' (json_of_comment (temp_of rt env p))))
     @ [Respond 200 (json_of_comment (temp_of rt env p))]
     @ snd (publish rt cfg (p_videoId p) (payload_of ''comment'' (json_of_comment (temp_of rt env p))))
     @ snd (case p_replyToUserId p of None \<Rightarrow> ([], [])
            | Some u \<Rightarrow> if u = [] then ([], [])
                else publish rt cfg (''user:'' @ u)
                       (payload_of ''reply'' (json_of_comment (temp_of rt env p))))
     @ cache_effects rt cfg (toLowerCase rt (or_default (q_scope req) ''live'')) (p_videoId p)
         (json_of_comment (temp_of rt env p))"
  using assms by (simp add: post_comments_def Let_def split_beta)

lemma publish_effects:
  "\<not> list_ex is_enqueue (fst (publish rt cfg room payload))"
  "\<not> list_ex is_enqueue (snd (publish rt cfg room payload))"
  "\<not> list_ex is_store_write (fst (publish rt cfg room payload))"
  "\<not> list_ex is_store_write (snd (publish rt cfg room payload))"
  by (simp_all add: publish_def Let_def)

lemma cache_effects_plain:
  "\<not> list_ex is_enqueue (cache_effects rt cfg scope v created)"
  "\<not> list_ex is_store_write (cache_effects rt cfg scope v created)"
  by (simp_all add: cache_effects_def)

lemma post_comments_enqueues:
  assumes "createSchema (body req) = Some p"
  shows "list_ex is_enqueue (post_comments rt cfg env req)
           = shouldPersist cfg (forcePersist_of req p) (random env)"
  using publish_effects(1,2) cache_effects_plain(1)
  by (auto simp: post_comments_accepted [OF assms] split: option.splits)

lemma save_attempts:
  "list_ex is_store_write (snd (snd (save rt cfg env temp s)))
     = shouldPersist cfg False (random env)"
  by (auto simp: save_def shouldPersist_def Let_def split: option.splits)

lemma SAMPLE_RATE_values:
  "SAMPLE_RATE_of NaN = Finite 0"
  "SAMPLE_RATE_of (Finite x) = Finite (min (max x 0) 1)"
  "SAMPLE_RATE_of PosInfinity = Finite 1"
  "SAMPLE_RATE_of NegInfinity = Finite 0"
  by (simp_all add: SAMPLE_RATE_of_def)

section \<open>The calls of the socket handler\<close>

lemma save_calls:
  "\<not> list_ex is_enqueue (snd (snd (save rt cfg env temp s)))"
  "\<not> list_ex is_broadcast (snd (snd (save rt cfg env temp s)))"
  by (auto simp: save_def Let_def split: option.splits)

lemma save_eligible:
  assumes "shouldPersist cfg False (random env)"
  shows "\<exists>rest. snd (snd (save rt cfg env temp s))
           = DbCreate \<lparr>nc_videoId = c_videoId temp, nc_userId = c_userId temp,
                       nc_content = c_content temp\<rparr> # rest"
  using assms by (auto simp: save_def shouldPersist_def Let_def split: option.splits)

lemma after_save_calls:
  "\<not> list_ex is_enqueue (after_save rt cfg data scope temp created)"
  "\<not> list_ex is_store_write (after_save rt cfg data scope temp created)"
  by (auto simp: after_save_def publish_def cache_effects_def Let_def split: option.splits)

lemma after_save_broadcasts:
  assumes "reply_converts rt data"
  shows "LocalEmit (''room:'' @ c_videoId temp)
           (JSON_stringify rt (payload_of ''comment'' created))
         \<in> set (after_save rt cfg data scope temp created)"
  using assms
  by (auto simp: after_save_def reply_converts_def publish_def payload_of_def Let_def
      split: option.splits)

lemma socket_accepted_temp:
  assumes "socket_accepted rt raw data"
  shows "\<exists>temp. socket_temp rt env data = Some temp"
  using assms by (auto simp: socket_accepted_def socket_temp_def)

lemma ws_message_accepted:
  assumes "socket_accepted rt raw data" and "socket_temp rt env data = Some temp"
      and "scope_of rt (field data ''scope'') = Some scope"
  shows "ws_message rt cfg env raw s =
     (fst (save rt cfg env temp s),
      snd (snd (save rt cfg env temp s))
      @ after_save rt cfg data scope temp (fst (snd (save rt cfg env temp s))))"
  using assms
  by (auto simp: socket_accepted_def ws_message_def Let_def split_beta)

lemma ws_message_rejected:
  assumes "\<not> socket_accepted rt raw data" and "JSON_parse rt raw = Some data"
  shows "ws_message rt cfg env raw s = (s, [])"
  using assms
  by (auto simp: socket_accepted_def ws_message_def socket_temp_def Let_def
      split: option.splits)

lemma ws_message_unparsed:
  assumes "JSON_parse rt raw = None"
  shows "ws_message rt cfg env raw s = (s, [])"
  using assms by (simp add: ws_message_def)

lemma ws_message_cases:
  obtains (dropped) "ws_message rt cfg env raw s = (s, [])"
        | (accepted) data temp scope where "socket_accepted rt raw data"
            "socket_temp rt env data = Some temp"
            "scope_of rt (field data ''scope'') = Some scope"
proof (cases "JSON_parse rt raw")
  case None
  then show ?thesis using dropped ws_message_unparsed by blast
next
  case (Some data)
  show ?thesis
  proof (cases "socket_accepted rt raw data")
    case False
    with Some show ?thesis using dropped ws_message_rejected by blast
  next
    case True
    from socket_accepted_temp [OF True, of env] obtain temp
      where t: "socket_temp rt env data = Some temp" by blast
    from True obtain scope where "scope_of rt (field data ''scope'') = Some scope"
      by (auto simp: socket_accepted_def)
    with True t show ?thesis using accepted by blast
  qed
qed

lemma ws_message_never_enqueues:
  "\<not> list_ex is_enqueue (snd (ws_message rt cfg env raw s))"
proof (cases rule: ws_message_cases [of rt cfg env raw s])
  case dropped
  then show ?thesis by simp
next
  case (accepted data temp scope)
  show ?thesis
    using save_calls(1) [of rt cfg env temp s] after_save_calls(1)
    by (simp add: ws_message_accepted [OF accepted])
qed

lemma ws_message_store_write_first:
  "none_after is_store_write is_broadcast (snd (ws_message rt cfg env raw s))"
proof (cases rule: ws_message_cases [of rt cfg env raw s])
  case dropped
  then show ?thesis by simp
next
  case (accepted data temp scope)
  show ?thesis
    unfolding ws_message_accepted [OF accepted] snd_conv
    by (rule none_after_append [OF save_calls(2) after_save_calls(2)])
qed

lemma ws_message_broadcasts:
  assumes "socket_accepted rt raw data" and "reply_converts rt data"
      and "socket_temp rt env data = Some temp"
  shows "LocalEmit (''room:'' @ c_videoId temp)
           (JSON_stringify rt (payload_of ''comment'' (fst (snd (save rt cfg env temp s)))))
         \<in> set (snd (ws_message rt cfg env raw s))"
proof -
  from assms(1) obtain scope where sc: "scope_of rt (field data ''scope'') = Some scope"
    by (auto simp: socket_accepted_def)
  show ?thesis
    using after_save_broadcasts [OF assms(2)]
    by (simp add: ws_message_accepted [OF assms(1,3) sc])
qed

lemma ws_message_eligible:
  assumes "socket_accepted rt raw data" and "socket_temp rt env data = Some temp"
      and "shouldPersist cfg False (random env)"
  shows "\<exists>rest. snd (ws_message rt cfg env raw s)
           = DbCreate \<lparr>nc_videoId = c_videoId temp, nc_userId = c_userId temp,
                       nc_content = c_content temp\<rparr> # rest"
proof -
  from assms(1) obtain scope where sc: "scope_of rt (field data ''scope'') = Some scope"
    by (auto simp: socket_accepted_def)
  show ?thesis
    using save_eligible [OF assms(3), of rt temp s]
    by (auto simp: ws_message_accepted [OF assms(1,2) sc])
qed

lemma post_comments_broadcasts:
  assumes "createSchema (body req) = Some p"
  shows "LocalEmit (''room:'' @ p_videoId p)
           (JSON_stringify rt (payload_of ''comment'' (json_of_comment (temp_of rt env p))))
         \<in> set (post_comments rt cfg env req)"
    and "Respond 200 (json_of_comment (temp_of rt env p)) \<in> set (post_comments rt cfg env req)"
    and "\<not> list_ex is_store_write (post_comments rt cfg env req)"
  using publish_effects(3,4) cache_effects_plain(2)
  by (auto simp: post_comments_accepted [OF assms] publish_def payload_of_def Let_def
      cache_effects_def split: option.splits)

lemma post_comments_eligible:
  assumes "createSchema (body req) = Some p"
      and "shouldPersist cfg (forcePersist_of req p) (random env)"
  shows "\<exists>rest. post_comments rt cfg env req
           = ProducerSend TOPIC_COMMENTS (p_videoId p)
               (JSON_stringify rt (json_of_comment (temp_of rt env p))) # rest
         \<and> \<not> list_ex is_enqueue rest"
  using assms(2) publish_effects(1,2) cache_effects_plain(1)
  by (auto simp: post_comments_accepted [OF assms(1)] split: option.splits)

section \<open>The example submission\<close>

lemma sample_socket_facts:
  "socket_accepted example_runtime socket_text sample_socket_message"
  "reply_converts example_runtime sample_socket_message"
  "socket_temp example_runtime sample_env sample_socket_message = Some sample_comment"
  "scope_of example_runtime (field sample_socket_message ''scope'') = Some ''live''"
  by (simp_all add: socket_accepted_def reply_converts_def example_parse
      sample_socket_message_def truthy_field_def scope_of_def socket_temp_def str_field_def
      example_runtime_simps sample_env_def sample_comment_def)

lemma throwing_socket_facts:
  "\<not> socket_accepted example_runtime throwing_socket_text throwing_socket_message"
  "truthy_field throwing_socket_message ''content''"
  by (simp_all add: socket_accepted_def throwing_socket_message_def truthy_field_def
      str_field_def example_runtime_simps)

lemma config_simps:
  "redis persist_all = False" "PERSIST_MODE persist_all = ''all''"
  "SAMPLE_RATE persist_all = Finite 0"
  "redis persist_none = False" "PERSIST_MODE persist_none = ''none''"
  "redis sample_always = False" "PERSIST_MODE sample_always = ''sample''"
  "SAMPLE_RATE sample_always = Finite 1"
  "redis none_rate_one = False" "PERSIST_MODE none_rate_one = ''none''"
  "SAMPLE_RATE none_rate_one = Finite 1"
  by (simp_all add: persist_all_def persist_none_def sample_always_def none_rate_one_def)

lemma sample_env_simps:
  "random sample_env = 0" "send_fails sample_env = False" "create_fails sample_env = False"
  "db_now sample_env = 1000"
  by (simp_all add: sample_env_def)

lemma sample_save:
  "save example_runtime persist_all sample_env sample_comment empty_db
     = (\<lparr>rows = [sample_row ''ck''], generated = 1\<rparr>,
        json_of_row example_runtime (sample_row ''ck''), [DbCreate sample_new])"
  "save example_runtime sample_always sample_env sample_comment empty_db
     = (\<lparr>rows = [sample_row ''ck''], generated = 1\<rparr>,
        json_of_row example_runtime (sample_row ''ck''), [DbCreate sample_new])"
  by (simp_all add: save_def config_simps sample_env_simps sample_comment_def create_def
      empty_db_def mk_row_def example_runtime_simps sample_row_def sample_new_def Let_def)

lemma sample_after_save:
  "redis cfg = False \<Longrightarrow>
   after_save example_runtime cfg sample_socket_message ''live'' sample_comment created
     = [LocalEmit ''room:v1'' (json_text (payload_of ''comment'' created))]"
  by (simp add: after_save_def sample_socket_message_def truthy_field_def publish_def
      cache_effects_def payload_of_def example_runtime_simps sample_comment_def)

lemma sample_socket_run:
  "ws_message example_runtime persist_all sample_env socket_text empty_db
     = (\<lparr>rows = [sample_row ''ck''], generated = 1\<rparr>,
        [DbCreate sample_new,
         LocalEmit ''room:v1''
           (json_text (payload_of ''comment'' (json_of_row example_runtime (sample_row ''ck''))))])"
  "ws_message example_runtime sample_always sample_env socket_text empty_db
     = (\<lparr>rows = [sample_row ''ck''], generated = 1\<rparr>,
        [DbCreate sample_new,
         LocalEmit ''room:v1''
           (json_text (payload_of ''comment'' (json_of_row example_runtime (sample_row ''ck''))))])"
  by (simp_all add: ws_message_accepted [OF sample_socket_facts(1,3,4)] sample_save
      sample_after_save config_simps)

lemma throwing_socket_run:
  "ws_message example_runtime cfg env throwing_socket_text s = (s, [])"
  by (rule ws_message_rejected [OF throwing_socket_facts(1) example_parse(8)])

lemma sample_post_accepted:
  "createSchema (body sample_request) = Some sample_parsed"
  "createSchema (body plain_request) = Some sample_parsed"
  by (simp_all add: createSchema_def createSchema_object_def sample_request_def
      plain_request_def sample_body_def sample_parsed_def)

lemma sample_force:
  "forcePersist_of sample_request sample_parsed"
  "\<not> forcePersist_of plain_request sample_parsed"
  by (simp_all add: forcePersist_of_def sample_request_def plain_request_def sample_parsed_def)

lemma sample_temp: "temp_of example_runtime sample_env sample_parsed = sample_comment"
  by (simp add: temp_of_def sample_env_def sample_parsed_def sample_comment_def
      example_runtime_simps)

lemma sample_post_run:
  "post_comments example_runtime persist_none sample_env sample_request
     = [ProducerSend ''comments'' ''v1'' sample_text,
        Respond 200 (json_of_comment sample_comment),
        LocalEmit ''room:v1'' (json_text (payload_of ''comment'' (json_of_comment sample_comment)))]"
  "post_comments example_runtime persist_all sample_env plain_request
     = [ProducerSend ''comments'' ''v1'' sample_text,
        Respond 200 (json_of_comment sample_comment),
        LocalEmit ''room:v1'' (json_text (payload_of ''comment'' (json_of_comment sample_comment)))]"
  "post_comments example_runtime none_rate_one sample_env plain_request
     = [Respond 200 (json_of_comment sample_comment),
        LocalEmit ''room:v1'' (json_text (payload_of ''comment'' (json_of_comment sample_comment)))]"
proof -
  have p: "p_videoId sample_parsed = ''v1''" "p_replyToUserId sample_parsed = None"
    by (simp_all add: sample_parsed_def)
  show "post_comments example_runtime persist_none sample_env sample_request
     = [ProducerSend ''comments'' ''v1'' sample_text,
        Respond 200 (json_of_comment sample_comment),
        LocalEmit ''room:v1'' (json_text (payload_of ''comment'' (json_of_comment sample_comment)))]"
    by (simp add: post_comments_accepted [OF sample_post_accepted(1)] sample_force p
        sample_temp shouldPersist_def config_simps sample_env_simps publish_def
        cache_effects_def TOPIC_COMMENTS_def example_runtime_simps json_text_samples
        payload_of_def)
  show "post_comments example_runtime persist_all sample_env plain_request
     = [ProducerSend ''comments'' ''v1'' sample_text,
        Respond 200 (json_of_comment sample_comment),
        LocalEmit ''room:v1'' (json_text (payload_of ''comment'' (json_of_comment sample_comment)))]"
    by (simp add: post_comments_accepted [OF sample_post_accepted(2)] sample_force p
        sample_temp shouldPersist_def config_simps sample_env_simps publish_def
        cache_effects_def TOPIC_COMMENTS_def example_runtime_simps json_text_samples
        payload_of_def)
  show "post_comments example_runtime none_rate_one sample_env plain_request
     = [Respond 200 (json_of_comment sample_comment),
        LocalEmit ''room:v1'' (json_text (payload_of ''comment'' (json_of_comment sample_comment)))]"
    by (simp add: post_comments_accepted [OF sample_post_accepted(2)] sample_force p
        sample_temp shouldPersist_def config_simps sample_env_simps publish_def
        cache_effects_def TOPIC_COMMENTS_def example_runtime_simps json_text_samples
        payload_of_def)
qed

section \<open>C7: the persistence decision\<close>

text \<open>
  C7. The claim: the decision is true when the caller forces it, true in mode \<open>all\<close>,
  true with probability \<open>sampleRate\<close> in mode \<open>sample\<close> and false otherwise, so that with
  \<open>sampleRate = 0\<close> no record is ever enqueued absent an override and with
  \<open>sampleRate = 1\<close> every record is enqueued. The rate is read in mode \<open>sample\<close> only,
  and only the HTTP handler enqueues: with the rate 0 and no override the submission of the
  example is enqueued in mode \<open>all\<close>; with the rate 1 it is not enqueued in mode \<open>none\<close>;
  and with the rate 1 in mode \<open>sample\<close> the socket comment of the example is
  persist-eligible and is not enqueued.
\<close>

theorem sample_rate_does_not_decide_alone:
  "SAMPLE_RATE persist_all = Finite 0
   \<and> \<not> forcePersist_of plain_request sample_parsed
   \<and> list_ex is_enqueue (post_comments example_runtime persist_all sample_env plain_request)
   \<and> SAMPLE_RATE none_rate_one = Finite 1
   \<and> \<not> list_ex is_enqueue
        (post_comments example_runtime none_rate_one sample_env plain_request)
   \<and> SAMPLE_RATE sample_always = Finite 1
   \<and> shouldPersist sample_always False (random sample_env)
   \<and> \<not> list_ex is_enqueue
        (snd (ws_message example_runtime sample_always sample_env socket_text empty_db))"
  by (simp add: config_simps sample_force sample_post_run sample_socket_run shouldPersist_def
      sample_env_simps)

text \<open>
  C7, as the code has it. The decision is true when the caller forces it, in mode \<open>all\<close>,
  and in mode \<open>sample\<close> when the draw of \<open>Math.random()\<close> is below the rate; it is false
  otherwise. The caller forces it with the query \<open>persist=1\<close> or the body field
  \<open>persist: true\<close>, and in no other way. The configured rate is clamped to \<open>[0, 1]\<close>
  (0 when it is no number). In mode \<open>sample\<close> the draws in \<open>[0, 1)\<close> that persist are
  those of \<open>[0, rate)\<close>: with the rate 0 no record persists absent an override, with the
  rate 1 every record does. The HTTP handler enqueues a submission exactly when the
  decision is true; the socket handler has no override, writes to the store exactly when
  the decision is true, and never enqueues.
\<close>

theorem persistence_decision:
  "shouldPersist cfg forcePersist r
     = (forcePersist \<or> PERSIST_MODE cfg = ''all''
        \<or> (PERSIST_MODE cfg = ''sample'' \<and> js_less r (SAMPLE_RATE cfg)))
   \<and> forcePersist_of req p = (q_persist req = Some ''1'' \<or> p_persist p = Some True)
   \<and> SAMPLE_RATE_of NaN = Finite 0
   \<and> SAMPLE_RATE_of (Finite y) = Finite (min (max y 0) 1)
   \<and> SAMPLE_RATE_of PosInfinity = Finite 1
   \<and> SAMPLE_RATE_of NegInfinity = Finite 0
   \<and> (PERSIST_MODE cfg = ''sample'' \<and> SAMPLE_RATE cfg = Finite x \<and> 0 \<le> x \<and> x \<le> 1 \<longrightarrow>
        {u. 0 \<le> u \<and> u < 1 \<and> shouldPersist cfg False u} = {0..<x})
   \<and> (PERSIST_MODE cfg = ''sample'' \<and> SAMPLE_RATE cfg = Finite 0 \<and> 0 \<le> r \<and> \<not> forcePersist \<longrightarrow>
        \<not> shouldPersist cfg forcePersist r)
   \<and> (PERSIST_MODE cfg = ''sample'' \<and> SAMPLE_RATE cfg = Finite 1 \<and> r < 1 \<longrightarrow>
        shouldPersist cfg forcePersist r)
   \<and> (createSchema (body req) = Some p \<longrightarrow>
        list_ex is_enqueue (post_comments rt cfg env req)
          = shouldPersist cfg (forcePersist_of req p) (random env))
   \<and> list_ex is_store_write (snd (snd (save rt cfg env temp s)))
        = shouldPersist cfg False (random env)
   \<and> \<not> list_ex is_enqueue (snd (ws_message rt cfg env raw s))"
proof -
  have table: "shouldPersist cfg forcePersist r
     = (forcePersist \<or> PERSIST_MODE cfg = ''all''
        \<or> (PERSIST_MODE cfg = ''sample'' \<and> js_less r (SAMPLE_RATE cfg)))"
    by (simp add: shouldPersist_def)
  have override: "forcePersist_of req p = (q_persist req = Some ''1'' \<or> p_persist p = Some True)"
    by (simp add: forcePersist_of_def)
  have chance: "PERSIST_MODE cfg = ''sample'' \<and> SAMPLE_RATE cfg = Finite x \<and> 0 \<le> x \<and> x \<le> 1 \<longrightarrow>
        {u. 0 \<le> u \<and> u < 1 \<and> shouldPersist cfg False u} = {0..<x}"
    by (auto simp: shouldPersist_def)
  have ends: "(PERSIST_MODE cfg = ''sample'' \<and> SAMPLE_RATE cfg = Finite 0 \<and> 0 \<le> r \<and> \<not> forcePersist \<longrightarrow>
        \<not> shouldPersist cfg forcePersist r)
   \<and> (PERSIST_MODE cfg = ''sample'' \<and> SAMPLE_RATE cfg = Finite 1 \<and> r < 1 \<longrightarrow>
        shouldPersist cfg forcePersist r)"
    by (simp add: shouldPersist_def)
  from table override chance ends SAMPLE_RATE_values(1,3,4) SAMPLE_RATE_values(2) [of y]
    post_comments_enqueues [of req p rt cfg env] save_attempts [of rt cfg env temp s]
    ws_message_never_enqueues [of rt cfg env raw s]
  show ?thesis by blast
qed

theorem persistence_decision_witness:
  "SAMPLE_RATE_of (Finite 5) = Finite 1
   \<and> SAMPLE_RATE_of (Finite (1 / 2)) = Finite (1 / 2)
   \<and> SAMPLE_RATE_of (Finite (- 3)) = Finite 0
   \<and> shouldPersist sample_always False (99 / 100)
   \<and> \<not> shouldPersist \<lparr>PERSIST_MODE = ''sample'', SAMPLE_RATE = SAMPLE_RATE_of (Finite (1 / 2)),
          redis = False\<rparr> False (3 / 4)
   \<and> shouldPersist \<lparr>PERSIST_MODE = ''sample'', SAMPLE_RATE = SAMPLE_RATE_of (Finite (1 / 2)),
          redis = False\<rparr> False (1 / 4)
   \<and> forcePersist_of sample_request sample_parsed
   \<and> \<not> forcePersist_of plain_request sample_parsed
   \<and> list_ex is_enqueue (post_comments example_runtime persist_none sample_env sample_request)
   \<and> \<not> list_ex is_enqueue (post_comments example_runtime persist_none sample_env plain_request)
   \<and> {u. 0 \<le> u \<and> u < 1
          \<and> shouldPersist \<lparr>PERSIST_MODE = ''sample'', SAMPLE_RATE = Finite (1 / 2),
                redis = False\<rparr> False u} = {0..<1 / 2}
   \<and> \<not> shouldPersist \<lparr>PERSIST_MODE = ''sample'', SAMPLE_RATE = Finite 0, redis = False\<rparr>
          False 0"
proof -
  let ?half = "\<lparr>PERSIST_MODE = ''sample'', SAMPLE_RATE = SAMPLE_RATE_of (Finite (1 / 2)),
      redis = False\<rparr>"
  note t1 = persistence_decision [where y = 5 and cfg = sample_always and forcePersist = False
      and r = "99 / 100"]
  note t2 = persistence_decision [where y = "1 / 2" and cfg = ?half and forcePersist = False
      and r = "3 / 4"]
  note t3 = persistence_decision [where y = "- 3" and cfg = ?half and forcePersist = False
      and r = "1 / 4"]
  note t4 = persistence_decision [where cfg = persist_none and req = sample_request
      and p = sample_parsed and rt = example_runtime and env = sample_env]
  note t5 = persistence_decision [where cfg = persist_none and req = plain_request
      and p = sample_parsed and rt = example_runtime and env = sample_env]
  from t1 have a: "SAMPLE_RATE_of (Finite 5) = Finite 1"
    "shouldPersist sample_always False (99 / 100)"
    by (simp_all add: config_simps)
  from t2 have b: "SAMPLE_RATE_of (Finite (1 / 2)) = Finite (1 / 2)" by simp
  from t2 b have b': "\<not> shouldPersist ?half False (3 / 4)" by simp
  from t3 have c: "SAMPLE_RATE_of (Finite (- 3)) = Finite 0" by simp
  from t3 b have c': "shouldPersist ?half False (1 / 4)" by simp
  from t4 have d: "forcePersist_of sample_request sample_parsed"
    by (simp add: sample_request_def)
  from t5 have e: "\<not> forcePersist_of plain_request sample_parsed"
    by (simp add: plain_request_def sample_parsed_def)
  from t4 sample_post_accepted(1) d
  have f: "list_ex is_enqueue (post_comments example_runtime persist_none sample_env
      sample_request)"
    by (simp add: shouldPersist_def)
  from t5 sample_post_accepted(2) e
  have g: "\<not> list_ex is_enqueue (post_comments example_runtime persist_none sample_env
      plain_request)"
    by (simp add: shouldPersist_def config_simps)
  note t6 = persistence_decision [where cfg = "\<lparr>PERSIST_MODE = ''sample'',
      SAMPLE_RATE = Finite (1 / 2), redis = False\<rparr>" and x = "1 / 2"]
  note t7 = persistence_decision [where cfg = "\<lparr>PERSIST_MODE = ''sample'',
      SAMPLE_RATE = Finite 0, redis = False\<rparr>" and r = 0 and forcePersist = False]
  have hyp6: "PERSIST_MODE \<lparr>PERSIST_MODE = ''sample'', SAMPLE_RATE = Finite (1 / 2),
        redis = False\<rparr> = ''sample''
      \<and> SAMPLE_RATE \<lparr>PERSIST_MODE = ''sample'', SAMPLE_RATE = Finite (1 / 2),
        redis = False\<rparr> = Finite (1 / 2)
      \<and> 0 \<le> (1 / 2 :: real) \<and> (1 / 2 :: real) \<le> 1"
    by simp
  have hyp7: "PERSIST_MODE \<lparr>PERSIST_MODE = ''sample'', SAMPLE_RATE = Finite 0,
        redis = False\<rparr> = ''sample''
      \<and> SAMPLE_RATE \<lparr>PERSIST_MODE = ''sample'', SAMPLE_RATE = Finite 0,
        redis = False\<rparr> = Finite 0
      \<and> 0 \<le> (0 :: real) \<and> \<not> False"
    by simp
  from t6 hyp6 have h: "{u. 0 \<le> u \<and> u < 1
          \<and> shouldPersist \<lparr>PERSIST_MODE = ''sample'', SAMPLE_RATE = Finite (1 / 2),
                redis = False\<rparr> False u} = {0..<1 / 2}"
    by blast
  from t7 hyp7 have i: "\<not> shouldPersist \<lparr>PERSIST_MODE = ''sample'', SAMPLE_RATE = Finite 0,
      redis = False\<rparr> False 0"
    by blast
  from a b b' c c' d e f g h i show ?thesis by simp
qed

section \<open>C5: broadcast and persistence attempt\<close>

text \<open>
  C5. The claim: the broadcast of a record happens before or with, never after, the
  persistence attempt for it. On the socket path the handler awaits \<open>save()\<close> and
  broadcasts in its \<open>then\<close>: with mode \<open>all\<close> the store write of the example comes first
  and the broadcast, which carries the stored row, second.
\<close>

theorem socket_broadcast_follows_store_write:
  "snd (ws_message example_runtime persist_all sample_env socket_text empty_db)
     = [DbCreate sample_new,
        LocalEmit ''room:v1''
          (json_text (payload_of ''comment'' (json_of_row example_runtime (sample_row ''ck''))))]
   \<and> \<not> none_after is_broadcast is_persist_attempt
        (snd (ws_message example_runtime persist_all sample_env socket_text empty_db))"
  by (simp add: sample_socket_run)

text \<open>
  C5, as the code has it. On the socket path no store write is made after a broadcast:
  the broadcast follows the awaited store write. It is made for every message that the
  handler accepts (a comment by its shape, none of whose conversions throws), carrying the
  record that \<open>save()\<close> returned, whether the write succeeded, failed or was skipped; a
  message that the handler does not accept, or that is no JSON text, changes nothing and
  causes no call. On the HTTP path every accepted submission is broadcast and answered with
  the same canonical record, and the handler makes no store write of its own, so the
  response never waits for the consumer's write.
\<close>

theorem broadcast_after_store_write:
  "none_after is_store_write is_broadcast (snd (ws_message rt cfg env raw s))
   \<and> (socket_accepted rt raw data \<and> reply_converts rt data
        \<and> socket_temp rt env data = Some temp \<longrightarrow>
        LocalEmit (''room:'' @ c_videoId temp)
          (JSON_stringify rt (payload_of ''comment'' (fst (snd (save rt cfg env temp s)))))
        \<in> set (snd (ws_message rt cfg env raw s)))
   \<and> (JSON_parse rt raw = Some data \<and> \<not> socket_accepted rt raw data \<longrightarrow>
        ws_message rt cfg env raw s = (s, []))
   \<and> (JSON_parse rt raw = None \<longrightarrow> ws_message rt cfg env raw s = (s, []))
   \<and> (createSchema (body req) = Some p \<longrightarrow>
        LocalEmit (''room:'' @ p_videoId p)
          (JSON_stringify rt (payload_of ''comment'' (json_of_comment (temp_of rt env p))))
        \<in> set (post_comments rt cfg env req)
        \<and> Respond 200 (json_of_comment (temp_of rt env p)) \<in> set (post_comments rt cfg env req)
        \<and> \<not> list_ex is_store_write (post_comments rt cfg env req))"
  using ws_message_store_write_first [of rt cfg env raw s]
    ws_message_broadcasts [where rt = rt and raw = raw and data = data and cfg = cfg
      and env = env and s = s and temp = temp]
    ws_message_rejected [where rt = rt and raw = raw and data = data and cfg = cfg
      and env = env and s = s]
    ws_message_unparsed [where rt = rt and raw = raw and cfg = cfg and env = env and s = s]
    post_comments_broadcasts [where req = req and p = p and rt = rt and env = env and cfg = cfg]
  by blast

theorem broadcast_after_store_write_witness:
  "none_after is_store_write is_broadcast
     [DbCreate sample_new,
      LocalEmit ''room:v1''
        (json_text (payload_of ''comment'' (json_of_row example_runtime (sample_row ''ck''))))]
   \<and> LocalEmit ''room:v1''
        (json_text (payload_of ''comment'' (json_of_row example_runtime (sample_row ''ck''))))
       \<in> set (snd (ws_message example_runtime persist_all sample_env socket_text empty_db))
   \<and> JSON_parse example_runtime throwing_socket_text = Some throwing_socket_message
   \<and> ws_message example_runtime persist_all sample_env throwing_socket_text empty_db
       = (empty_db, [])
   \<and> JSON_parse example_runtime ''not json'' = None
   \<and> ws_message example_runtime persist_all sample_env ''not json'' empty_db = (empty_db, [])
   \<and> LocalEmit ''room:v1'' (json_text (payload_of ''comment'' (json_of_comment sample_comment)))
       \<in> set (post_comments example_runtime persist_all sample_env sample_request)
   \<and> Respond 200 (json_of_comment sample_comment)
       \<in> set (post_comments example_runtime persist_all sample_env sample_request)
   \<and> \<not> list_ex is_store_write
        (post_comments example_runtime persist_all sample_env sample_request)"
proof -
  note t = broadcast_after_store_write [where rt = example_runtime and cfg = persist_all
      and env = sample_env and raw = socket_text and s = empty_db
      and data = sample_socket_message and temp = sample_comment
      and req = sample_request and p = sample_parsed]
  note u = broadcast_after_store_write [where rt = example_runtime and cfg = persist_all
      and env = sample_env and raw = throwing_socket_text and s = empty_db
      and data = throwing_socket_message and temp = sample_comment
      and req = sample_request and p = sample_parsed,
      THEN conjunct2, THEN conjunct2, THEN conjunct1]
  note v = broadcast_after_store_write [where rt = example_runtime and cfg = persist_all
      and env = sample_env and raw = "''not json''" and s = empty_db
      and data = sample_socket_message and temp = sample_comment
      and req = sample_request and p = sample_parsed,
      THEN conjunct2, THEN conjunct2, THEN conjunct2, THEN conjunct1]
  from t have order: "none_after is_store_write is_broadcast
      (snd (ws_message example_runtime persist_all sample_env socket_text empty_db))"
    by blast
  from t sample_socket_facts(1,2,3)
  have socket: "LocalEmit (''room:'' @ c_videoId sample_comment)
      (JSON_stringify example_runtime (payload_of ''comment''
          (fst (snd (save example_runtime persist_all sample_env sample_comment empty_db)))))
      \<in> set (snd (ws_message example_runtime persist_all sample_env socket_text empty_db))"
    by blast
  from example_parse(8) throwing_socket_facts(1)
  have thrown: "ws_message example_runtime persist_all sample_env throwing_socket_text empty_db
      = (empty_db, [])"
    by (intro u [THEN mp] conjI)
  from example_parse(9)
  have unparsed: "ws_message example_runtime persist_all sample_env ''not json'' empty_db
      = (empty_db, [])"
    by (rule v [THEN mp])
  from t sample_post_accepted(1)
  have http: "LocalEmit (''room:'' @ p_videoId sample_parsed)
      (JSON_stringify example_runtime (payload_of ''comment''
          (json_of_comment (temp_of example_runtime sample_env sample_parsed))))
      \<in> set (post_comments example_runtime persist_all sample_env sample_request)
    \<and> Respond 200 (json_of_comment (temp_of example_runtime sample_env sample_parsed))
      \<in> set (post_comments example_runtime persist_all sample_env sample_request)
    \<and> \<not> list_ex is_store_write
        (post_comments example_runtime persist_all sample_env sample_request)"
    by blast
  have w: "p_videoId sample_parsed = ''v1''" "c_videoId sample_comment = ''v1''"
    by (simp_all add: sample_parsed_def sample_comment_def)
  from order have order': "none_after is_store_write is_broadcast
     [DbCreate sample_new,
      LocalEmit ''room:v1''
        (json_text (payload_of ''comment'' (json_of_row example_runtime (sample_row ''ck''))))]"
    by (simp add: sample_socket_run)
  from socket have socket': "LocalEmit ''room:v1''
        (json_text (payload_of ''comment'' (json_of_row example_runtime (sample_row ''ck''))))
       \<in> set (snd (ws_message example_runtime persist_all sample_env socket_text empty_db))"
    by (simp add: sample_save w example_runtime_simps)
  from http have http': "LocalEmit ''room:v1''
        (json_text (payload_of ''comment'' (json_of_comment sample_comment)))
       \<in> set (post_comments example_runtime persist_all sample_env sample_request)
     \<and> Respond 200 (json_of_comment sample_comment)
       \<in> set (post_comments example_runtime persist_all sample_env sample_request)
     \<and> \<not> list_ex is_store_write
        (post_comments example_runtime persist_all sample_env sample_request)"
    by (simp add: sample_temp example_runtime_simps w)
  from order' socket' thrown unparsed http' example_parse(8) example_parse(9)
  show ?thesis by blast
qed

section \<open>C9: the way to the store\<close>

text \<open>
  C9. The claim: every persist-eligible comment, from either ingestion path, is enqueued
  with its room id as the key, and none bypasses the queue. The socket handler has no
  enqueue: in mode \<open>all\<close> the comment of the example is persist-eligible and is written
  to the store by the handler itself.
\<close>

theorem socket_comment_bypasses_queue:
  "shouldPersist persist_all False (random sample_env)
   \<and> list_ex is_store_write
        (snd (ws_message example_runtime persist_all sample_env socket_text empty_db))
   \<and> \<not> list_ex is_enqueue
        (snd (ws_message example_runtime persist_all sample_env socket_text empty_db))
   \<and> rows (fst (ws_message example_runtime persist_all sample_env socket_text empty_db))
       = [sample_row ''ck'']"
  by (simp add: sample_socket_run shouldPersist_def config_simps)

text \<open>
  C9, as the code has it. On the HTTP path a persist-eligible comment is sent to the queue
  as the first call of the handler, in one message whose key is its \<open>videoId\<close> and whose
  value is the serialized record; a comment that is not eligible is not sent. The socket
  path never enqueues: for a persist-eligible comment that the handler accepts (a comment
  by its shape, none of whose conversions throws) its first call is the write of the
  converted \<open>videoId\<close>, \<open>userId\<close> and content to the primary store.
\<close>

theorem http_enqueues_socket_writes_directly:
  "(createSchema (body req) = Some p \<and> shouldPersist cfg (forcePersist_of req p) (random env)
      \<longrightarrow> (\<exists>rest. post_comments rt cfg env req
                = ProducerSend TOPIC_COMMENTS (p_videoId p)
                    (JSON_stringify rt (json_of_comment (temp_of rt env p))) # rest
              \<and> \<not> list_ex is_enqueue rest))
   \<and> (createSchema (body req) = Some p \<and> \<not> shouldPersist cfg (forcePersist_of req p) (random env)
      \<longrightarrow> \<not> list_ex is_enqueue (post_comments rt cfg env req))
   \<and> \<not> list_ex is_enqueue (snd (ws_message rt cfg env raw s))
   \<and> (socket_accepted rt raw data \<and> shouldPersist cfg False (random env)
      \<longrightarrow> (\<exists>v u c rest.
             str_field rt data ''videoId'' = Some v \<and> str_field rt data ''userId'' = Some u
             \<and> str_field rt data ''content'' = Some c
             \<and> snd (ws_message rt cfg env raw s)
                = DbCreate \<lparr>nc_videoId = v, nc_userId = u, nc_content = take 2000 c\<rparr> # rest))"
proof -
  have socket: "\<exists>v u c rest.
             str_field rt data ''videoId'' = Some v \<and> str_field rt data ''userId'' = Some u
             \<and> str_field rt data ''content'' = Some c
             \<and> snd (ws_message rt cfg env raw s)
                = DbCreate \<lparr>nc_videoId = v, nc_userId = u, nc_content = take 2000 c\<rparr> # rest"
    if a: "socket_accepted rt raw data" and e: "shouldPersist cfg False (random env)"
  proof -
    from a obtain v u c where f: "str_field rt data ''videoId'' = Some v"
      "str_field rt data ''userId'' = Some u" "str_field rt data ''content'' = Some c"
      by (auto simp: socket_accepted_def)
    define temp where "temp = \<lparr>c_id = uuid env, c_videoId = v, c_userId = u,
        c_content = take 2000 c, c_createdAt = toISOString rt (now env),
        c_replyToId = field data ''replyToId'',
        c_replyToUserId = field data ''replyToUserId''\<rparr>"
    from f have t: "socket_temp rt env data = Some temp"
      by (simp add: socket_temp_def temp_def)
    from ws_message_eligible [OF a t e, of s] f show ?thesis
      by (simp add: temp_def)
  qed
  with post_comments_eligible [where req = req and p = p and cfg = cfg and env = env and rt = rt]
    post_comments_enqueues [where req = req and p = p and cfg = cfg and env = env and rt = rt]
    ws_message_never_enqueues [of rt cfg env raw s]
  show ?thesis by blast
qed

theorem http_enqueues_socket_writes_directly_witness:
  "post_comments example_runtime persist_none sample_env sample_request
     = [ProducerSend ''comments'' ''v1'' sample_text,
        Respond 200 (json_of_comment sample_comment),
        LocalEmit ''room:v1'' (json_text (payload_of ''comment'' (json_of_comment sample_comment)))]
   \<and> (\<exists>rest. post_comments example_runtime persist_none sample_env sample_request
         = ProducerSend TOPIC_COMMENTS ''v1'' sample_text # rest \<and> \<not> list_ex is_enqueue rest)
   \<and> \<not> list_ex is_enqueue
        (post_comments example_runtime persist_none sample_env plain_request)
   \<and> (\<exists>rest. snd (ws_message example_runtime persist_all sample_env socket_text empty_db)
         = DbCreate sample_new # rest)"
proof -
  have forced: "shouldPersist persist_none (forcePersist_of sample_request sample_parsed)
      (random sample_env)"
    by (simp add: shouldPersist_def sample_force)
  have plain: "\<not> shouldPersist persist_none (forcePersist_of plain_request sample_parsed)
      (random sample_env)"
    by (simp add: shouldPersist_def sample_force config_simps)
  have eligible: "shouldPersist persist_all False (random sample_env)"
    by (simp add: shouldPersist_def config_simps)
  note t1 = http_enqueues_socket_writes_directly [where rt = example_runtime
      and cfg = persist_none and env = sample_env and req = sample_request
      and p = sample_parsed]
  note t2 = http_enqueues_socket_writes_directly [where rt = example_runtime
      and cfg = persist_all and env = sample_env and raw = socket_text and s = empty_db
      and data = sample_socket_message]
  note t3 = http_enqueues_socket_writes_directly [where rt = example_runtime
      and cfg = persist_none and env = sample_env and req = plain_request
      and p = sample_parsed]
  from t1 sample_post_accepted(1) forced
  have a: "\<exists>rest. post_comments example_runtime persist_none sample_env sample_request
         = ProducerSend TOPIC_COMMENTS (p_videoId sample_parsed)
             (JSON_stringify example_runtime
                (json_of_comment (temp_of example_runtime sample_env sample_parsed))) # rest
         \<and> \<not> list_ex is_enqueue rest"
    by blast
  from t2 sample_socket_facts(1) eligible
  have b: "\<exists>v u c rest.
      str_field example_runtime sample_socket_message ''videoId'' = Some v
      \<and> str_field example_runtime sample_socket_message ''userId'' = Some u
      \<and> str_field example_runtime sample_socket_message ''content'' = Some c
      \<and> snd (ws_message example_runtime persist_all sample_env socket_text empty_db)
         = DbCreate \<lparr>nc_videoId = v, nc_userId = u, nc_content = take 2000 c\<rparr> # rest"
    by blast
  from t3 sample_post_accepted(2) plain
  have c: "\<not> list_ex is_enqueue
      (post_comments example_runtime persist_none sample_env plain_request)"
    by blast
  have v: "p_videoId sample_parsed = ''v1''" by (simp add: sample_parsed_def)
  from a have a': "\<exists>rest. post_comments example_runtime persist_none sample_env sample_request
         = ProducerSend TOPIC_COMMENTS ''v1'' sample_text # rest \<and> \<not> list_ex is_enqueue rest"
    by (simp add: v sample_temp example_runtime_simps json_text_samples)
  from b have b': "\<exists>rest. snd (ws_message example_runtime persist_all sample_env socket_text
      empty_db) = DbCreate sample_new # rest"
    by (auto simp: str_field_def sample_socket_message_def example_runtime_simps sample_new_def)
  from sample_post_run(1) a' b' c show ?thesis by blast
qed

section \<open>C6: the id of a comment\<close>

text \<open>The id of a queue entry takes no part in its validation or in the data for the store.\<close>

lemma entry_id_ignored:
  "valid_shape (JObj ((''id'', i) # kvs)) = valid_shape (JObj kvs)"
  "to_new_comment rt (JObj ((''id'', i) # kvs)) = to_new_comment rt (JObj kvs)"
proof -
  have f: "str_field rt (JObj ((''id'', i) # kvs)) ''videoId'' = str_field rt (JObj kvs) ''videoId''"
    "str_field rt (JObj ((''id'', i) # kvs)) ''userId'' = str_field rt (JObj kvs) ''userId''"
    "str_field rt (JObj ((''id'', i) # kvs)) ''content'' = str_field rt (JObj kvs) ''content''"
    by (simp_all add: str_field_def)
  show "valid_shape (JObj ((''id'', i) # kvs)) = valid_shape (JObj kvs)"
    by (simp add: valid_shape_def truthy_field_def)
  show "to_new_comment rt (JObj ((''id'', i) # kvs)) = to_new_comment rt (JObj kvs)"
    by (simp only: to_new_comment_def f)
qed

text \<open>
  C6. The claim: the id is assigned once, at ingestion, no later stage assigns another, and
  the id broadcast equals the id stored. The HTTP handler broadcasts and enqueues the
  record with the id \<open>uuid-1\<close> of \<open>randomUUID()\<close>; the consumer drops that id and the row
  it stores has the generated id \<open>ck\<close>. On the socket path the record built at ingestion
  has the id \<open>uuid-1\<close> too, and the store write gives the comment the second id \<open>ck\<close>,
  which is the one broadcast.
\<close>

theorem stored_id_differs_from_broadcast_id:
  "post_comments example_runtime persist_none sample_env sample_request
     = [ProducerSend ''comments'' ''v1'' sample_text,
        Respond 200 (json_of_comment sample_comment),
        LocalEmit ''room:v1'' (json_text (payload_of ''comment'' (json_of_comment sample_comment)))]
   \<and> c_id sample_comment = ''uuid-1''
   \<and> eachBatch example_runtime kafka_quiet [\<lparr>k_offset = 0, k_value = Some sample_text\<rparr>]
       empty_db
     = (Returned, \<lparr>rows = [sample_row ''ck''], generated = 1\<rparr>,
        [ResolveOffset 0, Heartbeat, DbCreateMany [sample_new]])
   \<and> r_id (sample_row ''ck'') = ''ck''
   \<and> r_id (sample_row ''ck'') \<noteq> c_id sample_comment
   \<and> ws_message example_runtime persist_all sample_env socket_text empty_db
     = (\<lparr>rows = [sample_row ''ck''], generated = 1\<rparr>,
        [DbCreate sample_new,
         LocalEmit ''room:v1''
           (json_text (payload_of ''comment'' (json_of_row example_runtime (sample_row ''ck''))))])
   \<and> socket_temp example_runtime sample_env sample_socket_message = Some sample_comment"
proof -
  have worker: "eachBatch example_runtime kafka_quiet
      [\<lparr>k_offset = 0, k_value = Some sample_text\<rparr>] empty_db
     = (Returned, \<lparr>rows = [sample_row ''ck''], generated = 1\<rparr>,
        [ResolveOffset 0, Heartbeat, DbCreateMany [sample_new]])"
    by (simp add: eachBatch_def kafka_quiet_def example_parse valid_shape_def truthy_field_def
        json_of_comment_def sample_comment_def opt_prop_def to_new_comment_def str_field_def
        example_runtime_simps sample_new_def empty_db_def mk_row_def sample_row_def)
  have ids: "c_id sample_comment = ''uuid-1''" "r_id (sample_row ''ck'') = ''ck''"
    by (simp_all add: sample_comment_def sample_row_def)
  from sample_post_run(1) worker ids sample_socket_run(1) sample_socket_facts(3) show ?thesis
    by simp
qed

section \<open>C8: the hot cache and the recent-history read\<close>

lemma cache_write_key:
  "cache_write NoFault key t c key = take 500 (t # c key)"
  by (simp add: cache_write_def lpush_def ltrim_cap Let_def)

lemma take_append_take: "take n (xs @ take n ys) = take n (xs @ ys)"
  by (simp add: min_def)

lemma cache_writes_key:
  "ts \<noteq> [] \<Longrightarrow> cache_writes key ts c key = take 500 (rev ts @ c key)"
proof (induction ts arbitrary: c)
  case Nil
  then show ?case by simp
next
  case (Cons t ts)
  show ?case
  proof (cases "ts = []")
    case True
    then show ?thesis by (simp add: cache_write_key)
  next
    case False
    from Cons.IH [OF False, of "cache_write NoFault key t c"]
    have "cache_writes key (t # ts) c key = take 500 (rev ts @ take 500 (t # c key))"
      by (simp add: cache_write_key)
    also have "\<dots> = take 500 (rev ts @ t # c key)"
      by (rule take_append_take)
    finally show ?thesis by simp
  qed
qed

lemma map_filter_rev: "List.map_filter f (rev xs) = rev (List.map_filter f xs)"
  by (simp add: List.map_filter_def rev_map rev_filter)

lemma parse_items_all:
  assumes "\<forall>t \<in> set arr. \<exists>j. JSON_parse rt t = Some j \<and> truthy j"
  shows "parse_items rt arr = List.map_filter (JSON_parse rt) arr"
    and "length (parse_items rt arr) = length arr"
  using assms
  by (induction arr) (auto simp: parse_items_def List.map_filter_simps)

lemma parse_items_length: "length (parse_items rt arr) \<le> length arr"
  by (induction arr) (auto simp: parse_items_def List.map_filter_simps split: option.splits)

lemma effective_limit_range:
  "1 \<le> effective_limit n" "effective_limit n \<le> 1000"
  by (auto simp: effective_limit_def Let_def split: option.splits)

lemma effective_limit_requested:
  "1 \<le> n \<Longrightarrow> n \<le> 1000 \<Longrightarrow> effective_limit (Some n) = nat n"
  by (simp add: effective_limit_def Let_def)

lemma get_comments_cached:
  assumes "redis cfg" and "g_videoId req = Some v" and "v \<noteq> []"
      and "c (''chat:'' @ toLowerCase rt (or_default (g_scope req) ''live'') @ '':'' @ v) \<noteq> []"
  shows "get_comments rt cfg False c s req
     = Inr (rev (parse_items rt (take (effective_limit (g_limit req))
         (c (''chat:'' @ toLowerCase rt (or_default (g_scope req) ''live'') @ '':'' @ v)))))"
proof -
  have pos: "0 < effective_limit (g_limit req)"
    using effective_limit_range(1) [of "g_limit req"] by simp
  with assms(4) have "take (effective_limit (g_limit req))
      (c (''chat:'' @ toLowerCase rt (or_default (g_scope req) ''live'') @ '':'' @ v)) \<noteq> []"
    by (cases "c (''chat:'' @ toLowerCase rt (or_default (g_scope req) ''live'') @ '':'' @ v)")
       (auto simp: take_Cons')
  with assms(1-3) pos show ?thesis
    by (simp add: get_comments_def or_default_def Let_def lrange_prefix)
qed

lemma sample_cache:
  "cache_writes ''chat:live:v1'' [sample_text] (\<lambda>k. []) ''chat:live:v1'' = [sample_text]"
  by (simp add: cache_write_key)

lemma sample_read:
  "get_comments example_runtime redis_on False
     (cache_writes ''chat:live:v1'' [sample_text] (\<lambda>k. [])) empty_db
     \<lparr>g_videoId = Some ''v1'', g_limit = requested, g_scope = None\<rparr>
   = Inr [json_of_comment sample_comment]"
proof -
  have pos: "0 < effective_limit requested" using effective_limit_range(1) [of requested] by simp
  then have one: "take (effective_limit requested) [sample_text] = [sample_text]"
    by (cases "effective_limit requested") simp_all
  have "get_comments example_runtime redis_on False
     (cache_writes ''chat:live:v1'' [sample_text] (\<lambda>k. [])) empty_db
     \<lparr>g_videoId = Some ''v1'', g_limit = requested, g_scope = None\<rparr>
   = Inr (rev (parse_items example_runtime (take (effective_limit requested) [sample_text])))"
    using get_comments_cached [of redis_on
        "\<lparr>g_videoId = Some ''v1'', g_limit = requested, g_scope = None\<rparr>" "''v1''"
        "cache_writes ''chat:live:v1'' [sample_text] (\<lambda>k. [])" example_runtime empty_db]
    by (simp add: redis_on_def or_default_def example_runtime_simps cache_write_key)
  then show ?thesis
    by (simp add: one parse_items_def List.map_filter_simps example_parse json_of_comment_def
        redis_on_def)
qed

lemma effective_limit_cases:
  "effective_limit None = 200"
  "effective_limit (Some n) = (if n \<le> 0 then 200 else if 1000 \<le> n then 1000 else nat n)"
  by (auto simp: effective_limit_def Let_def)

lemma map_filter_replicate:
  "f x = Some y \<Longrightarrow> List.map_filter f (replicate n x) = replicate n y"
  by (induction n) (simp_all add: List.map_filter_simps)

lemma map_filter_append:
  "List.map_filter f (xs @ ys) = List.map_filter f xs @ List.map_filter f ys"
  by (simp add: List.map_filter_def)

text \<open>
  C8. The claim: after any number of cache writes the list of a room holds at most the
  cap of entries, the oldest are dropped, and a read with any limit returns at most
  \<open>min(limit, cap)\<close> entries, the most recent ones in chronological order. A read whose
  limit is 0 (or absent, negative or not a number) is served with the limit 200: after one
  write it returns one entry, more than \<open>min(0, cap)\<close>.
\<close>

theorem read_with_limit_zero_returns_entries:
  "get_comments example_runtime redis_on False
     (cache_writes ''chat:live:v1'' [sample_text] (\<lambda>k. [])) empty_db
     \<lparr>g_videoId = Some ''v1'', g_limit = Some 0, g_scope = None\<rparr>
   = Inr [json_of_comment sample_comment]
   \<and> \<not> length [json_of_comment sample_comment] \<le> min (nat 0) 500
   \<and> effective_limit (Some 0) = 200"
  using sample_read [of "Some 0"] by (simp add: effective_limit_def)

text \<open>
  C8, as the code has it. After one or more writes (each prepends and trims) the list of
  the room is the 500 newest entries, newest first, whatever it held before. The limit
  that the read uses is 200 when the request gives no number, 0 or a negative number, 1000
  when it gives 1000 or more, and the requested limit otherwise. A read served from the
  cache returns the \<open>min(limit, 500)\<close> most recent entries, oldest first, for that limit
  (all entries being JSON texts of truthy values, as the handlers write them).
\<close>

theorem hot_cache_bounded:
  assumes "ts \<noteq> []" and "redis cfg" and "g_videoId req = Some v" and "v \<noteq> []"
      and "key = ''chat:'' @ toLowerCase rt (or_default (g_scope req) ''live'') @ '':'' @ v"
      and "\<forall>t \<in> set ts \<union> set (c key). \<exists>j. JSON_parse rt t = Some j \<and> truthy j"
  shows "cache_writes key ts c key = take 500 (rev ts @ c key)
       \<and> length (cache_writes key ts c key) \<le> 500
       \<and> effective_limit None = 200
       \<and> effective_limit (Some n)
           = (if n \<le> 0 then 200 else if 1000 \<le> n then 1000 else nat n)
       \<and> 1 \<le> effective_limit (g_limit req) \<and> effective_limit (g_limit req) \<le> 1000
       \<and> get_comments rt cfg False (cache_writes key ts c) s req
           = Inr (List.map_filter (JSON_parse rt)
               (drop (length (rev (c key) @ ts) - min (effective_limit (g_limit req)) 500)
                  (rev (c key) @ ts)))
       \<and> length (List.map_filter (JSON_parse rt)
               (drop (length (rev (c key) @ ts) - min (effective_limit (g_limit req)) 500)
                  (rev (c key) @ ts)))
           = min (min (effective_limit (g_limit req)) 500) (length (c key) + length ts)"
proof -
  let ?L = "effective_limit (g_limit req)"
  define newest where "newest = rev ts @ c key"
  define oldest where "oldest = rev (c key) @ ts"
  have shape: "rev newest = oldest" "length newest = length oldest"
    by (simp_all add: newest_def oldest_def)
  have written: "cache_writes key ts c key = take 500 newest"
    unfolding newest_def by (rule cache_writes_key [OF assms(1)])
  have nonempty: "cache_writes key ts c key \<noteq> []"
    using assms(1) by (simp add: written newest_def)
  have served: "get_comments rt cfg False (cache_writes key ts c) s req
      = Inr (rev (parse_items rt (take ?L (cache_writes key ts c key))))"
    using get_comments_cached [OF assms(2,3,4), of "cache_writes key ts c" rt s] nonempty
    by (simp add: assms(5))
  have window: "take ?L (cache_writes key ts c key) = take (min ?L 500) newest"
    by (simp only: written take_take)
  have ok: "\<forall>t \<in> set (take (min ?L 500) newest). \<exists>j. JSON_parse rt t = Some j \<and> truthy j"
    using assms(6) by (auto simp: newest_def dest: in_set_takeD)
  have "rev (parse_items rt (take (min ?L 500) newest))
      = List.map_filter (JSON_parse rt) (rev (take (min ?L 500) newest))"
    by (simp only: parse_items_all(1) [OF ok] map_filter_rev)
  also have "rev (take (min ?L 500) newest) = drop (length oldest - min ?L 500) oldest"
    by (simp only: rev_take shape)
  finally have items: "rev (parse_items rt (take ?L (cache_writes key ts c key)))
      = List.map_filter (JSON_parse rt) (drop (length oldest - min ?L 500) oldest)"
    by (simp only: window)
  have "length (parse_items rt (take (min ?L 500) newest)) = length (take (min ?L 500) newest)"
    by (rule parse_items_all(2) [OF ok])
  also have "\<dots> = min (length ts + length (c key)) (min ?L 500)"
    by (simp only: newest_def length_take length_append length_rev)
  also have "\<dots> = min (min ?L 500) (length (c key) + length ts)"
    by linarith
  finally have "length (rev (parse_items rt (take ?L (cache_writes key ts c key))))
      = min (min ?L 500) (length (c key) + length ts)"
    by (simp only: window length_rev)
  with items have bound: "length (List.map_filter (JSON_parse rt)
      (drop (length oldest - min ?L 500) oldest))
      = min (min ?L 500) (length (c key) + length ts)"
    by simp
  have cap: "length (cache_writes key ts c key) \<le> 500"
    by (simp add: written)
  from written cap served items bound effective_limit_range [of "g_limit req"]
    effective_limit_cases(1) effective_limit_cases(2) [of n]
  show ?thesis
    unfolding newest_def oldest_def by simp
qed

theorem hot_cache_bounded_witness:
  "cache_writes ''chat:live:v1''
       (sample_text # replicate 498 stripped_text @ [second_text, third_text]) (\<lambda>k. [])
       ''chat:live:v1''
     = third_text # second_text # replicate 498 stripped_text
   \<and> length (third_text # second_text # replicate 498 stripped_text) = 500
   \<and> effective_limit (Some 2) = 2
   \<and> effective_limit (Some 5000) = 1000
   \<and> effective_limit (Some (- 3)) = 200
   \<and> get_comments example_runtime redis_on False
        (cache_writes ''chat:live:v1''
           (sample_text # replicate 498 stripped_text @ [second_text, third_text]) (\<lambda>k. []))
        empty_db \<lparr>g_videoId = Some ''v1'', g_limit = Some 2, g_scope = None\<rparr>
      = Inr [json_of_comment (numbered_comment ''uuid-2''),
             json_of_comment (numbered_comment ''uuid-3'')]
   \<and> get_comments example_runtime redis_on False
        (cache_writes ''chat:live:v1''
           (sample_text # replicate 498 stripped_text @ [second_text, third_text]) (\<lambda>k. []))
        empty_db \<lparr>g_videoId = Some ''v1'', g_limit = Some 5000, g_scope = None\<rparr>
      = Inr (replicate 498 sample_body
             @ [json_of_comment (numbered_comment ''uuid-2''),
                json_of_comment (numbered_comment ''uuid-3'')])"
proof -
  let ?ts = "sample_text # replicate 498 stripped_text @ [second_text, third_text]"
  let ?req = "\<lparr>g_videoId = Some ''v1'', g_limit = Some 2, g_scope = None\<rparr>"
  let ?all = "\<lparr>g_videoId = Some ''v1'', g_limit = Some 5000, g_scope = None\<rparr>"
  have a1: "?ts \<noteq> []" by simp
  have a2: "redis redis_on" by (simp add: redis_on_def)
  have a3: "g_videoId ?req = Some ''v1''" "g_videoId ?all = Some ''v1''" by simp_all
  have a4: "''v1'' \<noteq> []" by simp
  have a5: "''chat:live:v1''
      = ''chat:'' @ toLowerCase example_runtime (or_default (g_scope ?req) ''live'') @ '':'' @ ''v1''"
    "''chat:live:v1''
      = ''chat:'' @ toLowerCase example_runtime (or_default (g_scope ?all) ''live'') @ '':'' @ ''v1''"
    by (simp_all add: or_default_def example_runtime_simps)
  have a6: "\<forall>t \<in> set ?ts \<union> set ((\<lambda>k. []) ''chat:live:v1'').
      \<exists>j. JSON_parse example_runtime t = Some j \<and> truthy j"
    by (simp add: example_parse json_of_comment_def sample_body_def)
  note t = hot_cache_bounded [OF a1 a2 a3(1) a4 a5(1) a6, where s = empty_db and n = 2]
  note u = hot_cache_bounded [OF a1 a2 a3(2) a4 a5(2) a6, where s = empty_db and n = 5000]
  note w = hot_cache_bounded [OF a1 a2 a3(2) a4 a5(2) a6, where s = empty_db and n = "- 3"]
  have len: "length ?ts = 501" by simp
  from t have written: "cache_writes ''chat:live:v1'' ?ts (\<lambda>k. []) ''chat:live:v1''
      = take 500 (rev ?ts @ [])"
    by blast
  from t have l2: "effective_limit (Some 2) = 2" by simp
  from u have l5000: "effective_limit (Some 5000) = 1000" by simp
  from w have lneg: "effective_limit (Some (- 3)) = 200" by simp
  from t have r2: "get_comments example_runtime redis_on False
        (cache_writes ''chat:live:v1'' ?ts (\<lambda>k. [])) empty_db ?req
      = Inr (List.map_filter (JSON_parse example_runtime)
          (drop (length (rev ((\<lambda>k. []) ''chat:live:v1'') @ ?ts)
                   - min (effective_limit (g_limit ?req)) 500)
             (rev ((\<lambda>k. []) ''chat:live:v1'') @ ?ts)))"
    by blast
  from u have r5000: "get_comments example_runtime redis_on False
        (cache_writes ''chat:live:v1'' ?ts (\<lambda>k. [])) empty_db ?all
      = Inr (List.map_filter (JSON_parse example_runtime)
          (drop (length (rev ((\<lambda>k. []) ''chat:live:v1'') @ ?ts)
                   - min (effective_limit (g_limit ?all)) 500)
             (rev ((\<lambda>k. []) ''chat:live:v1'') @ ?ts)))"
    by blast
  have w1: "take 500 (rev ?ts @ []) = third_text # second_text # replicate 498 stripped_text"
    by simp
  have d2: "drop (501 - min (effective_limit (Some 2)) 500) ?ts = [second_text, third_text]"
    by (simp add: l2)
  have d5000: "drop (501 - min (effective_limit (Some 5000)) 500) ?ts
      = replicate 498 stripped_text @ [second_text, third_text]"
    by (simp add: l5000)
  have m: "List.map_filter (JSON_parse example_runtime) [second_text, third_text]
      = [json_of_comment (numbered_comment ''uuid-2''),
         json_of_comment (numbered_comment ''uuid-3'')]"
    by (simp add: List.map_filter_simps example_parse)
  have r: "List.map_filter (JSON_parse example_runtime) (replicate 498 stripped_text)
      = replicate 498 sample_body"
    by (rule map_filter_replicate [where f = "JSON_parse example_runtime", OF example_parse(2)])
  from r2 have r2': "get_comments example_runtime redis_on False
        (cache_writes ''chat:live:v1'' ?ts (\<lambda>k. [])) empty_db ?req
      = Inr [json_of_comment (numbered_comment ''uuid-2''),
             json_of_comment (numbered_comment ''uuid-3'')]"
    by (simp only: len get_request.simps option.simps append_Nil rev.simps d2 m)
  from r5000 have r5000': "get_comments example_runtime redis_on False
        (cache_writes ''chat:live:v1'' ?ts (\<lambda>k. [])) empty_db ?all
      = Inr (replicate 498 sample_body
             @ [json_of_comment (numbered_comment ''uuid-2''),
                json_of_comment (numbered_comment ''uuid-3'')])"
    by (simp only: len get_request.simps option.simps append_Nil rev.simps d5000
        map_filter_append m r)
  from written w1 have written': "cache_writes ''chat:live:v1'' ?ts (\<lambda>k. []) ''chat:live:v1''
      = third_text # second_text # replicate 498 stripped_text"
    by (simp only:)
  have l: "length (third_text # second_text # replicate 498 stripped_text) = 500" by simp
  from written' l l2 l5000 lneg r2' r5000' show ?thesis by blast
qed

end
